theory Spec2Isabelle
  imports Main "HOL-Library.Word" "HOL-Library.Sublist" "HOL-Library.Char_ord" "HOL-Library.List_Lexorder"
begin

section \<open>The Kubernetes client of teresa (pkg/server/k8s/client.go)\<close>

text \<open>
  The client talks to a cluster control plane through client-go. The control plane is not
  part of the program: every answer it gives is an input of the model (the record
  \<open>world\<close>), and the functions below are the Go functions with the answers threaded
  through. A Go \<open>error\<close> is an \<open>error option\<close> (\<open>None\<close> is \<open>nil\<close>); a Go
  \<open>int32\<close> is a \<open>32 word\<close> read with \<open>sint\<close>.
\<close>

subsection \<open>Errors\<close>

datatype error =
    ErrPodRunFailed
  | ErrPodStillRunning
  | ErrWaitTimeout
  | StatusNotFound string
  | ApiError string
  | Wrapped error string

text \<open>\<open>errors.Wrap(err, msg)\<close> of github.com/pkg/errors: \<open>nil\<close> stays \<open>nil\<close>.\<close>

definition Wrap :: "error option \<Rightarrow> string \<Rightarrow> error option" where
  "Wrap err msg = (case err of None \<Rightarrow> None | Some e \<Rightarrow> Some (Wrapped e msg))"

text \<open>
  Modelled from the spec: \<open>Client.IsNotFound\<close> is declared in another file of the package.
  The spec (section 6) has the core distinguish the NotFound condition of the resource store
  from all other errors; \<open>nil\<close> and every other error, a wrapped one included, are not
  NotFound.
\<close>

definition IsNotFound :: "error option \<Rightarrow> bool" where
  "IsNotFound err = (case err of Some (StatusNotFound _) \<Rightarrow> True | _ \<Rightarrow> False)"

subsection \<open>Resources\<close>

datatype pod_phase =
    PodPending | PodRunning | PodSucceeded | PodFailed | PodUnknown | PodPhaseOther string

text \<open>
  A container status: \<open>State.Terminated\<close> is a pointer, \<open>None\<close> when the container has
  not terminated, else the \<open>ExitCode\<close> (an \<open>int32\<close>) of the terminated state.
\<close>

record container_status =
  cs_name :: string
  terminated :: "32 word option"

record pod =
  pod_namespace :: string
  pod_name :: string
  phase :: pod_phase
  containerStatuses :: "container_status list"

record deployment =
  dep_namespace :: string
  dep_name :: string
  status_replicas :: "32 word"

text \<open>\<open>spec.Deploy\<close>, \<open>spec.CronJob\<close> and \<open>spec.Pod\<close>: only the identity is read here.\<close>

record workload_spec =
  ws_namespace :: string
  ws_name :: string

subsection \<open>The client and the world it talks to\<close>

datatype rest_config = RestConfig string

record client =
  conf :: rest_config
  podRunTimeout :: nat
  ingress :: bool

text \<open>\<open>app.LogOptions\<close>, as \<open>PodLogs\<close> reads it.\<close>

record log_options =
  lo_lines :: int
  lo_follow :: bool
  lo_previous :: bool
  lo_container :: string

text \<open>
  A log stream, as \<open>io.Copy\<close> reads it: the bytes it delivers, and the error that ends
  it (\<open>None\<close> at the end of the stream, \<open>io.EOF\<close>).
\<close>

record log_stream =
  ls_bytes :: string
  ls_error :: "error option"

datatype patch_type = JSONPatchType | MergePatchType | StrategicMergePatchType

text \<open>
  The answers of the world. \<open>newForConfig\<close> and \<open>podsGet\<close> are asked several times in
  one operation, and may answer differently each time: the last argument counts the calls.
  \<open>podsGetLogs\<close> answers the log stream that \<open>req.Stream()\<close> opens. \<open>pollTicks\<close>
  says how many times the ticker of \<open>wait.PollImmediate\<close> fires within a timeout, for a
  check interval and a timeout. \<open>timeNow\<close> is \<open>time.Now()\<close> as \<open>%s\<close> prints it, and
  \<open>jsonQuote\<close> is the quoting of a string by \<open>encoding/json\<close>. A patch of a service
  answers the annotations the service has afterwards, from the ones it had.
\<close>

record world =
  newForConfig :: "rest_config \<Rightarrow> nat \<Rightarrow> error option"
  deploymentsGet :: "string \<Rightarrow> string \<Rightarrow> error + deployment"
  deploymentsPatch :: "string \<Rightarrow> string \<Rightarrow> patch_type \<Rightarrow> string \<Rightarrow> error option"
  cronJobsPatch :: "string \<Rightarrow> string \<Rightarrow> patch_type \<Rightarrow> string \<Rightarrow> error option"
  servicesPatch :: "string \<Rightarrow> string \<Rightarrow> patch_type \<Rightarrow> string \<Rightarrow> (string \<times> string) list
                      \<Rightarrow> error + (string \<times> string) list"
  podsCreate :: "string \<Rightarrow> pod \<Rightarrow> error + pod"
  podsGet :: "string \<Rightarrow> string \<Rightarrow> nat \<Rightarrow> error + pod"
  podsGetLogs :: "string \<Rightarrow> string \<Rightarrow> log_options \<Rightarrow> error + log_stream"
  pollTicks :: "nat \<Rightarrow> nat \<Rightarrow> nat"
  timeNow :: string
  jsonQuote :: "string \<Rightarrow> string"

text \<open>How many times the client set was built and a pod was read so far.\<close>

record calls =
  builds :: nat
  gets :: nat

definition buildClient :: "client \<Rightarrow> world \<Rightarrow> calls \<Rightarrow> error option \<times> calls" where
  "buildClient k w s =
     (case newForConfig w (conf k) (builds s) of
        Some err \<Rightarrow> (Some (Wrapped err ''create k8s client failed''), s\<lparr>builds := Suc (builds s)\<rparr>)
      | None \<Rightarrow> (None, s\<lparr>builds := Suc (builds s)\<rparr>))"

subsection \<open>Create or update\<close>

text \<open>
  One resource interface of the client set (\<open>kc.CoreV1().Secrets(namespace)\<close> and its
  like): what \<open>Update\<close> and \<open>Create\<close> answer for a namespace and a manifest. The
  requests an operation sends are returned beside its error, in order.
\<close>

record 'm resource_api =
  apiUpdate :: "string \<Rightarrow> 'm \<Rightarrow> error option"
  apiCreate :: "string \<Rightarrow> 'm \<Rightarrow> error option"

datatype 'm request = Update string 'm | Create string 'm

definition currentPodReplicasFromDeploy ::
  "client \<Rightarrow> world \<Rightarrow> string \<Rightarrow> string \<Rightarrow> calls \<Rightarrow> 32 word \<times> calls" where
  "currentPodReplicasFromDeploy k w namespace appName s =
     (case buildClient k w s of
        (Some err, s1) \<Rightarrow> (1, s1)
      | (None, s1) \<Rightarrow>
          (case deploymentsGet w namespace appName of
             Inl err \<Rightarrow> (1, s1)
           | Inr d \<Rightarrow> if sint (status_replicas d) < 1 then (1, s1) else (status_replicas d, s1)))"

text \<open>
  \<open>deploySpecToK8sDeploy\<close> is declared in another file of the package: it is the
  parameter \<open>toK8sDeploy\<close>, from the spec of the deploy and the replicas to a manifest, or
  an error.
\<close>

definition CreateOrUpdateDeploy ::
  "(workload_spec \<Rightarrow> 32 word \<Rightarrow> error + 'm) \<Rightarrow> client \<Rightarrow> world \<Rightarrow> 'm resource_api \<Rightarrow>
     workload_spec \<Rightarrow> calls \<Rightarrow> (error option \<times> 'm request list) \<times> calls" where
  "CreateOrUpdateDeploy toK8sDeploy k w api deploySpec s =
     (case buildClient k w s of
        (Some err, s1) \<Rightarrow> ((Some err, []), s1)
      | (None, s1) \<Rightarrow>
          (case currentPodReplicasFromDeploy k w (ws_namespace deploySpec) (ws_name deploySpec) s1 of
             (replicas, s2) \<Rightarrow>
               (case toK8sDeploy deploySpec replicas of
                  Inl err \<Rightarrow> ((Some err, []), s2)
                | Inr deployYaml \<Rightarrow>
                    (let err = apiUpdate api (ws_namespace deploySpec) deployYaml in
                     if IsNotFound err
                     then ((apiCreate api (ws_namespace deploySpec) deployYaml,
                            [Update (ws_namespace deploySpec) deployYaml,
                             Create (ws_namespace deploySpec) deployYaml]), s2)
                     else ((err, [Update (ws_namespace deploySpec) deployYaml]), s2)))))"

text \<open>The other four operations of the kind, each written out as in the source.\<close>

record secret =
  sec_type :: string
  sec_name :: string
  sec_namespace :: string
  sec_data :: "(string \<times> string) list"

definition CreateOrUpdateSecret ::
  "client \<Rightarrow> world \<Rightarrow> secret resource_api \<Rightarrow> string \<Rightarrow> string \<Rightarrow> (string \<times> string) list \<Rightarrow>
     calls \<Rightarrow> (error option \<times> secret request list) \<times> calls" where
  "CreateOrUpdateSecret c w api namespace secretName data s =
     (case buildClient c w s of
        (Some err, s1) \<Rightarrow> ((Some err, []), s1)
      | (None, s1) \<Rightarrow>
          (let sec = \<lparr>sec_type = ''Opaque'', sec_name = secretName, sec_namespace = namespace,
                      sec_data = data\<rparr>;
               err = apiUpdate api namespace sec
           in if IsNotFound err
              then ((apiCreate api namespace sec, [Update namespace sec, Create namespace sec]), s1)
              else ((err, [Update namespace sec]), s1)))"

text \<open>
  \<open>app.App\<close> is declared in another package; \<open>newHPA\<close> reads its name and, through the
  pointer \<open>a.Autoscale\<close>, the three numbers of the autoscale. A \<open>nil\<close> pointer there is a
  panic of \<open>newHPA\<close>: \<open>None\<close>.
\<close>

record autoscale =
  cpuTargetUtilization :: "32 word"
  as_min :: "32 word"
  as_max :: "32 word"

record app =
  app_name :: string
  app_autoscale :: "autoscale option"

record hpa =
  hpa_name :: string
  hpa_namespace :: string
  scaleTargetRef :: "string \<times> string \<times> string"
  targetCPUUtilizationPercentage :: "32 word option"
  maxReplicas :: "32 word"
  minReplicas :: "32 word option"

definition newHPA :: "app \<Rightarrow> hpa option" where
  "newHPA a =
     (case app_autoscale a of
        None \<Rightarrow> None
      | Some au \<Rightarrow>
          (let tcpu = cpuTargetUtilization au; minr = as_min au
           in Some \<lparr>hpa_name = app_name a, hpa_namespace = app_name a,
                    scaleTargetRef = (''extensions/v1beta1'', ''Deployment'', app_name a),
                    targetCPUUtilizationPercentage = Some tcpu,
                    maxReplicas = as_max au,
                    minReplicas = Some minr\<rparr>))"

text \<open>\<open>None\<close> is the panic of \<open>newHPA\<close>, which no request precedes.\<close>

definition CreateOrUpdateAutoscale ::
  "client \<Rightarrow> world \<Rightarrow> hpa resource_api \<Rightarrow> app \<Rightarrow> calls \<Rightarrow>
     ((error option \<times> hpa request list) \<times> calls) option" where
  "CreateOrUpdateAutoscale k w api a s =
     (case buildClient k w s of
        (Some err, s1) \<Rightarrow> Some ((Some err, []), s1)
      | (None, s1) \<Rightarrow>
          (case newHPA a of
             None \<Rightarrow> None
           | Some h \<Rightarrow>
               (let err = apiUpdate api (app_name a) h
                in if IsNotFound err
                   then Some ((apiCreate api (app_name a) h,
                               [Update (app_name a) h, Create (app_name a) h]), s1)
                   else Some ((err, [Update (app_name a) h]), s1))))"

text \<open>\<open>configMapSpec\<close> is declared in another file of the package: a parameter.\<close>

definition CreateOrUpdateConfigMap ::
  "(string \<Rightarrow> string \<Rightarrow> (string \<times> string) list \<Rightarrow> 'm) \<Rightarrow> client \<Rightarrow> world \<Rightarrow> 'm resource_api \<Rightarrow>
     string \<Rightarrow> string \<Rightarrow> (string \<times> string) list \<Rightarrow> calls \<Rightarrow> (error option \<times> 'm request list) \<times> calls" where
  "CreateOrUpdateConfigMap configMapSpec k w api namespace name data s =
     (case buildClient k w s of
        (Some err, s1) \<Rightarrow> ((Some err, []), s1)
      | (None, s1) \<Rightarrow>
          (let cm = configMapSpec namespace name data;
               err = apiUpdate api namespace cm
           in if IsNotFound err
              then ((apiCreate api namespace cm, [Update namespace cm, Create namespace cm]), s1)
              else ((err, [Update namespace cm]), s1)))"

text \<open>\<open>cronJobSpecToK8sCronJob\<close> is declared in another file of the package: a parameter.\<close>

definition CreateOrUpdateCronJob ::
  "(workload_spec \<Rightarrow> error + 'm) \<Rightarrow> client \<Rightarrow> world \<Rightarrow> 'm resource_api \<Rightarrow>
     workload_spec \<Rightarrow> calls \<Rightarrow> (error option \<times> 'm request list) \<times> calls" where
  "CreateOrUpdateCronJob toK8sCronJob c w api cronJobSpec s =
     (case buildClient c w s of
        (Some err, s1) \<Rightarrow> ((Some err, []), s1)
      | (None, s1) \<Rightarrow>
          (case toK8sCronJob cronJobSpec of
             Inl err \<Rightarrow> ((Some err, []), s1)
           | Inr cronJobYaml \<Rightarrow>
               (let err = apiUpdate api (ws_namespace cronJobSpec) cronJobYaml
                in if IsNotFound err
                   then ((apiCreate api (ws_namespace cronJobSpec) cronJobYaml,
                          [Update (ws_namespace cronJobSpec) cronJobYaml,
                           Create (ws_namespace cronJobSpec) cronJobYaml]), s1)
                   else ((err, [Update (ws_namespace cronJobSpec) cronJobYaml]), s1))))"

text \<open>
  What the spec asks of such an operation, for the manifest \<open>m\<close> it applies in the
  namespace \<open>ns\<close> and its outcome \<open>r\<close> (the error returned and the requests sent): the
  first request is the update; a create is sent exactly when the update answered NotFound;
  any other answer of the update, \<open>nil\<close> included, is returned as it is.
\<close>

definition updateFirstCreateOnNotFound ::
  "'m resource_api \<Rightarrow> string \<Rightarrow> 'm \<Rightarrow> error option \<times> 'm request list \<Rightarrow> bool" where
  "updateFirstCreateOnNotFound api ns m r =
     (snd r \<noteq> [] \<and> hd (snd r) = Update ns m
      \<and> ((\<exists>ns' m'. Create ns' m' \<in> set (snd r)) \<longleftrightarrow> IsNotFound (apiUpdate api ns m))
      \<and> (IsNotFound (apiUpdate api ns m) \<longrightarrow>
            snd r = [Update ns m, Create ns m] \<and> fst r = apiCreate api ns m)
      \<and> (\<not> IsNotFound (apiUpdate api ns m) \<longrightarrow>
            snd r = [Update ns m] \<and> fst r = apiUpdate api ns m))"

subsection \<open>Running a pod to completion\<close>

text \<open>
  \<open>wait.PollImmediate(interval, timeout, condition)\<close> of k8s.io/apimachinery, the bounded
  poller of section 4.1 of the spec: the condition is evaluated at once and then at every
  tick. An error of the condition ends the poll with that error, whatever its boolean; a
  true condition ends it with \<open>nil\<close>; when the ticks of the timeout are used up the poll
  ends with \<open>ErrWaitTimeout\<close>. The condition is a closure over the calls made so far.
\<close>

fun pollLoop :: "nat \<Rightarrow> ('s \<Rightarrow> (bool \<times> error option) \<times> 's) \<Rightarrow> 's \<Rightarrow> error option \<times> 's" where
  "pollLoop 0 condition s =
     (case condition s of
        ((done, err), s') \<Rightarrow>
          if err \<noteq> None then (err, s')
          else if done then (None, s')
          else (Some ErrWaitTimeout, s'))"
| "pollLoop (Suc n) condition s =
     (case condition s of
        ((done, err), s') \<Rightarrow>
          if err \<noteq> None then (err, s')
          else if done then (None, s')
          else pollLoop n condition s')"

definition PollImmediate ::
  "world \<Rightarrow> nat \<Rightarrow> nat \<Rightarrow> ('s \<Rightarrow> (bool \<times> error option) \<times> 's) \<Rightarrow> 's \<Rightarrow> error option \<times> 's" where
  "PollImmediate w interval timeout condition s = pollLoop (pollTicks w interval timeout) condition s"

text \<open>\<open>time.Duration\<close> counts nanoseconds.\<close>

definition second :: nat where
  "second = 1000000000"

definition minute :: nat where
  "minute = 60 * second"

text \<open>The closure \<open>waitPodStart\<close> polls with: one read of the pod.\<close>

definition waitPodStart_condition :: "world \<Rightarrow> pod \<Rightarrow> calls \<Rightarrow> (bool \<times> error option) \<times> calls" where
  "waitPodStart_condition w pod s =
     (case podsGet w (pod_namespace pod) (pod_name pod) (gets s) of
        Inl err \<Rightarrow> ((False, Some err), s\<lparr>gets := Suc (gets s)\<rparr>)
      | Inr p \<Rightarrow>
          if phase p = PodFailed then ((True, Some ErrPodRunFailed), s\<lparr>gets := Suc (gets s)\<rparr>)
          else ((phase p = PodRunning \<or> phase p = PodSucceeded, None), s\<lparr>gets := Suc (gets s)\<rparr>))"

definition waitPodStart ::
  "client \<Rightarrow> world \<Rightarrow> pod \<Rightarrow> nat \<Rightarrow> nat \<Rightarrow> calls \<Rightarrow> error option \<times> calls" where
  "waitPodStart k w pod checkInterval timeout s =
     (case buildClient k w s of
        (Some err, s1) \<Rightarrow> (Some err, s1)
      | (None, s1) \<Rightarrow> PollImmediate w checkInterval timeout (waitPodStart_condition w pod) s1)"

text \<open>The closure \<open>waitPodEnd\<close> polls with.\<close>

definition waitPodEnd_condition :: "world \<Rightarrow> pod \<Rightarrow> calls \<Rightarrow> (bool \<times> error option) \<times> calls" where
  "waitPodEnd_condition w pod s =
     (case podsGet w (pod_namespace pod) (pod_name pod) (gets s) of
        Inl err \<Rightarrow> ((False, Some err), s\<lparr>gets := Suc (gets s)\<rparr>)
      | Inr p \<Rightarrow>
          ((phase p = PodSucceeded \<or> phase p = PodFailed, None), s\<lparr>gets := Suc (gets s)\<rparr>))"

definition waitPodEnd ::
  "client \<Rightarrow> world \<Rightarrow> pod \<Rightarrow> nat \<Rightarrow> nat \<Rightarrow> calls \<Rightarrow> error option \<times> calls" where
  "waitPodEnd k w pod checkInterval timeout s =
     (case buildClient k w s of
        (Some err, s1) \<Rightarrow> (Some err, s1)
      | (None, s1) \<Rightarrow> PollImmediate w checkInterval timeout (waitPodEnd_condition w pod) s1)"

text \<open>
  The loop of \<open>podExitCode\<close> over the container statuses: the first terminated state
  gives the exit code (\<open>int(state.ExitCode)\<close>, from \<open>int32\<close>); with none,
  \<open>(1, ErrPodStillRunning)\<close>.
\<close>

fun podExitCode_loop :: "container_status list \<Rightarrow> int \<times> error option" where
  "podExitCode_loop [] = (1, Some ErrPodStillRunning)"
| "podExitCode_loop (containerStatus # rest) =
     (case terminated containerStatus of
        None \<Rightarrow> podExitCode_loop rest
      | Some exitCode \<Rightarrow> (sint exitCode, None))"

definition podExitCode :: "client \<Rightarrow> world \<Rightarrow> pod \<Rightarrow> calls \<Rightarrow> (int \<times> error option) \<times> calls" where
  "podExitCode k w pod s =
     (case buildClient k w s of
        (Some err, s1) \<Rightarrow> ((1, Some err), s1)
      | (None, s1) \<Rightarrow>
          (case podsGet w (pod_namespace pod) (pod_name pod) (gets s1) of
             Inl err \<Rightarrow> ((1, Some err), s1\<lparr>gets := Suc (gets s1)\<rparr>)
           | Inr p \<Rightarrow> (podExitCode_loop (containerStatuses p), s1\<lparr>gets := Suc (gets s1)\<rparr>)))"

definition PodLogs ::
  "client \<Rightarrow> world \<Rightarrow> string \<Rightarrow> string \<Rightarrow> log_options \<Rightarrow> calls \<Rightarrow> (error + log_stream) \<times> calls" where
  "PodLogs k w namespace podName opts s =
     (case buildClient k w s of
        (Some err, s1) \<Rightarrow> (Inl err, s1)
      | (None, s1) \<Rightarrow> (podsGetLogs w namespace podName opts, s1))"

text \<open>
  What the goroutine of \<open>PodRun\<close> does, in the order it does it. Every action but
  \<open>GoDeletePod\<close> is a plain call or statement of the goroutine, which waits for it: the
  next action starts when it has returned (with the error, or the bytes copied, or the value
  sent, that the action names). \<open>GoDeletePod\<close> is the statement \<open>go k.DeletePod(...)\<close>,
  whose call runs beside what follows. \<open>IoCopy\<close> is \<open>io.Copy(w, stream)\<close>, which
  returns when the log stream ends, with the bytes it has copied and the error that ended
  it; the goroutine reads neither. \<open>ChanSend\<close> is the send on \<open>exitCodeChan\<close>;
  \<open>WClose\<close> and \<open>ChanClose\<close> are \<open>w.Close()\<close> and \<open>close(exitCodeChan)\<close>.
\<close>

datatype action =
    WaitPodStart "error option"
  | OpenPodLogs "error option"
  | IoCopy string "error option"
  | WaitPodEnd "error option"
  | PodExitCode int "error option"
  | ChanSend int
  | GoDeletePod string string
  | WClose
  | ChanClose

text \<open>The body of the goroutine, up to its return.\<close>

definition goroutineBody ::
  "client \<Rightarrow> world \<Rightarrow> workload_spec \<Rightarrow> pod \<Rightarrow> calls \<Rightarrow> action list \<times> calls" where
  "goroutineBody k w podSpec pod s =
     (case waitPodStart k w pod (1 * second) (5 * minute) s of
        (Some err, s1) \<Rightarrow> ([WaitPodStart (Some err)], s1)
      | (None, s1) \<Rightarrow>
          (let opts = \<lparr>lo_lines = 10, lo_follow = True, lo_previous = False, lo_container = []\<rparr>
           in case PodLogs k w (ws_namespace podSpec) (ws_name podSpec) opts s1 of
                (Inl err, s2) \<Rightarrow> ([WaitPodStart None, OpenPodLogs (Some err)], s2)
              | (Inr stream, s2) \<Rightarrow>
                  (case waitPodEnd k w pod (3 * second) (podRunTimeout k) s2 of
                     (Some err, s3) \<Rightarrow>
                       ([WaitPodStart None, OpenPodLogs None, IoCopy (ls_bytes stream) (ls_error stream), WaitPodEnd (Some err)], s3)
                   | (None, s3) \<Rightarrow>
                       (case podExitCode k w pod s3 of
                          ((exitCode, Some err), s4) \<Rightarrow>
                            ([WaitPodStart None, OpenPodLogs None, IoCopy (ls_bytes stream) (ls_error stream), WaitPodEnd None,
                              PodExitCode exitCode (Some err)], s4)
                        | ((exitCode, None), s4) \<Rightarrow>
                            ([WaitPodStart None, OpenPodLogs None, IoCopy (ls_bytes stream) (ls_error stream), WaitPodEnd None,
                              PodExitCode exitCode None, ChanSend exitCode,
                              GoDeletePod (pod_namespace pod) (pod_name pod)], s4)))))"

text \<open>The goroutine: the body, then the deferred function.\<close>

definition goroutine ::
  "client \<Rightarrow> world \<Rightarrow> workload_spec \<Rightarrow> pod \<Rightarrow> calls \<Rightarrow> action list \<times> calls" where
  "goroutine k w podSpec pod s =
     (case goroutineBody k w podSpec pod s of (acts, s') \<Rightarrow> (acts @ [WClose, ChanClose], s'))"

text \<open>
  \<open>PodRun\<close> answers an error, or the two handles of a session: the read end of the pipe and
  the channel, which show the caller what the goroutine does. \<open>podSpecToK8sPod\<close> is declared
  in another file of the package: the parameter \<open>toK8sPod\<close>.
\<close>

definition PodRun ::
  "(workload_spec \<Rightarrow> error + pod) \<Rightarrow> client \<Rightarrow> world \<Rightarrow> workload_spec \<Rightarrow> calls \<Rightarrow>
     (error + action list) \<times> calls" where
  "PodRun toK8sPod k w podSpec s =
     (case buildClient k w s of
        (Some err, s1) \<Rightarrow> (Inl err, s1)
      | (None, s1) \<Rightarrow>
          (case toK8sPod podSpec of
             Inl err \<Rightarrow> (Inl (Wrapped err ''define build pod spec failed''), s1)
           | Inr podYaml \<Rightarrow>
               (case podsCreate w (ws_namespace podSpec) podYaml of
                  Inl err \<Rightarrow> (Inl (Wrapped err ''pod create failed''), s1)
                | Inr pod \<Rightarrow>
                    (case goroutine k w podSpec pod s1 of (acts, s2) \<Rightarrow> (Inr acts, s2)))))"

subsection \<open>Patches\<close>

text \<open>
  What \<open>json.Marshal\<close> is given here: strings, slices, structs with their \<open>json\<close>
  tags (the fields in the order of the declaration) and a \<open>map[string]string\<close>; \<open>JNull\<close>
  is the \<open>nil\<close> map. \<open>marshal\<close> writes the bytes as \<open>encoding/json\<close> does: no
  white space, the keys of a map sorted, the strings quoted by \<open>q\<close>.
\<close>

datatype jvalue =
    JString string
  | JArray "jvalue list"
  | JStruct "(string \<times> jvalue) list"
  | JMap "(string \<times> string) list"
  | JNull

fun joinComma :: "string list \<Rightarrow> string" where
  "joinComma [] = []"
| "joinComma [x] = x"
| "joinComma (x # y # zs) = x @ '','' @ joinComma (y # zs)"

fun marshal :: "(string \<Rightarrow> string) \<Rightarrow> jvalue \<Rightarrow> string" where
  "marshal q (JString x) = q x"
| "marshal q (JArray xs) = ''['' @ joinComma (map (marshal q) xs) @ '']''"
| "marshal q (JStruct fs) =
     ''{'' @ joinComma (map (\<lambda>f. CHR 0x22 # fst f @ [CHR 0x22] @ '':'' @ marshal q (snd f)) fs) @ ''}''"
| "marshal q (JMap kvs) =
     ''{'' @ joinComma (map (\<lambda>kv. q (fst kv) @ '':'' @ q (snd kv)) (sort_key fst kvs)) @ ''}''"
| "marshal q JNull = ''null''"

text \<open>For these values \<open>json.Marshal\<close> has no error to answer.\<close>

definition json_Marshal :: "world \<Rightarrow> jvalue \<Rightarrow> error + string" where
  "json_Marshal w v = Inr (marshal (jsonQuote w) v)"

text \<open>
  The three templates, as the functions \<open>fmt.Sprintf\<close> makes of them: each \<open>%s\<close> is
  replaced by its argument as it is.
\<close>

definition patchDeployEnvVarsTmpl :: "string \<Rightarrow> string \<Rightarrow> string \<Rightarrow> string" where
  \<open>patchDeployEnvVarsTmpl date name env =
     ''{"metadata": {"annotations": {"kubernetes.io/change-cause": "update env vars"}}, "spec":{"template":{"metadata": {"annotations": {"date": "''
     @ date @ ''"}}, "spec":{"containers":[{"name": "'' @ name @ ''", "env":'' @ env @ ''}]}}}}''\<close>

definition patchCronJobEnvVarsTmpl :: "string \<Rightarrow> string \<Rightarrow> string \<Rightarrow> string" where
  \<open>patchCronJobEnvVarsTmpl date name env =
     ''{"metadata": {"annotations": {"kubernetes.io/change-cause": "update env vars"}}, "spec":{"template":{"metadata":{"annotations":{"date": "''
     @ date @ ''"}}}, "jobTemplate":{"spec": {"template": {"spec": {"containers":[{"name": "'' @ name @ ''", "env":'' @ env @ ''}]}}}}}}''\<close>

definition patchServiceAnnotationsTmpl :: "string \<Rightarrow> string" where
  \<open>patchServiceAnnotationsTmpl annotations = ''{"metadata":{"annotations": '' @ annotations @ ''}}''\<close>


text \<open>
  The three converters. Each builds a slice of a local struct type, written here with
  the tags of the struct; \<open>env_var\<close> is \<open>app.EnvVar\<close>.
\<close>

record env_var =
  ev_key :: string
  ev_value :: string

definition convertAppSecretEnvVar :: "string \<Rightarrow> string list \<Rightarrow> jvalue" where
  "convertAppSecretEnvVar secretName secrets =
     JArray (map (\<lambda>secret.
        JStruct [(''name'', JString secret),
                 (''valueFrom'',
                    JStruct [(''secretKeyRef'',
                       JStruct [(''key'', JString secret), (''name'', JString secretName)])])])
        secrets)"

definition convertAppEnvVar :: "env_var list \<Rightarrow> jvalue" where
  "convertAppEnvVar evs =
     JArray (map (\<lambda>ev. JStruct [(''name'', JString (ev_key ev)), (''value'', JString (ev_value ev))]) evs)"

definition convertAppDeleteEnvVar :: "string list \<Rightarrow> jvalue" where
  "convertAppDeleteEnvVar evNames =
     JArray (map (\<lambda>evName. JStruct [(''name'', JString evName), (''$patch'', JString ''delete'')]) evNames)"

definition prepareEnvVarsPath ::
  "world \<Rightarrow> string \<Rightarrow> (string \<Rightarrow> string \<Rightarrow> string \<Rightarrow> string) \<Rightarrow> jvalue \<Rightarrow> error + string" where
  "prepareEnvVarsPath w name template v =
     (case json_Marshal w v of
        Inl err \<Rightarrow> Inl (Wrapped err ''failed to json encode env vars'')
      | Inr b \<Rightarrow> Inr (template (timeNow w) name b))"

text \<open>The patch requests an operation sends: namespace, name, patch type and body.\<close>

datatype patch_request = Patch string string patch_type string

definition patchDeployEnvVars ::
  "client \<Rightarrow> world \<Rightarrow> string \<Rightarrow> string \<Rightarrow> jvalue \<Rightarrow> calls \<Rightarrow>
     (error option \<times> patch_request list) \<times> calls" where
  "patchDeployEnvVars c w namespace name v s =
     (case prepareEnvVarsPath w name patchDeployEnvVarsTmpl v of
        Inl err \<Rightarrow> ((Some err, []), s)
      | Inr data \<Rightarrow>
          (case buildClient c w s of
             (Some err, s1) \<Rightarrow> ((Some err, []), s1)
           | (None, s1) \<Rightarrow>
               ((Wrap (deploymentsPatch w namespace name StrategicMergePatchType data)
                   ''patch deploy failed'',
                 [Patch namespace name StrategicMergePatchType data]), s1)))"

definition patchCronJobEnvVars ::
  "client \<Rightarrow> world \<Rightarrow> string \<Rightarrow> string \<Rightarrow> jvalue \<Rightarrow> calls \<Rightarrow>
     (error option \<times> patch_request list) \<times> calls" where
  "patchCronJobEnvVars c w namespace name v s =
     (case prepareEnvVarsPath w name patchCronJobEnvVarsTmpl v of
        Inl err \<Rightarrow> ((Some err, []), s)
      | Inr data \<Rightarrow>
          (case buildClient c w s of
             (Some err, s1) \<Rightarrow> ((Some err, []), s1)
           | (None, s1) \<Rightarrow>
               ((Wrap (cronJobsPatch w namespace name StrategicMergePatchType data)
                   ''patch cronjob failed'',
                 [Patch namespace name StrategicMergePatchType data]), s1)))"

definition CreateOrUpdateDeployEnvVars ::
  "client \<Rightarrow> world \<Rightarrow> string \<Rightarrow> string \<Rightarrow> env_var list \<Rightarrow> calls \<Rightarrow>
     (error option \<times> patch_request list) \<times> calls" where
  "CreateOrUpdateDeployEnvVars c w namespace name evs s =
     patchDeployEnvVars c w namespace name (convertAppEnvVar evs) s"

definition CreateOrUpdateCronJobEnvVars ::
  "client \<Rightarrow> world \<Rightarrow> string \<Rightarrow> string \<Rightarrow> env_var list \<Rightarrow> calls \<Rightarrow>
     (error option \<times> patch_request list) \<times> calls" where
  "CreateOrUpdateCronJobEnvVars c w namespace name evs s =
     patchCronJobEnvVars c w namespace name (convertAppEnvVar evs) s"

definition CreateOrUpdateDeploySecretEnvVars ::
  "client \<Rightarrow> world \<Rightarrow> string \<Rightarrow> string \<Rightarrow> string \<Rightarrow> string list \<Rightarrow> calls \<Rightarrow>
     (error option \<times> patch_request list) \<times> calls" where
  "CreateOrUpdateDeploySecretEnvVars c w namespace name secretName secrets s =
     patchDeployEnvVars c w namespace name (convertAppSecretEnvVar secretName secrets) s"

definition CreateOrUpdateCronJobSecretEnvVars ::
  "client \<Rightarrow> world \<Rightarrow> string \<Rightarrow> string \<Rightarrow> string \<Rightarrow> string list \<Rightarrow> calls \<Rightarrow>
     (error option \<times> patch_request list) \<times> calls" where
  "CreateOrUpdateCronJobSecretEnvVars c w namespace name secretName secrets s =
     patchCronJobEnvVars c w namespace name (convertAppSecretEnvVar secretName secrets) s"

definition DeleteDeployEnvVars ::
  "client \<Rightarrow> world \<Rightarrow> string \<Rightarrow> string \<Rightarrow> string list \<Rightarrow> calls \<Rightarrow>
     (error option \<times> patch_request list) \<times> calls" where
  "DeleteDeployEnvVars k w namespace name evNames s =
     patchDeployEnvVars k w namespace name (convertAppDeleteEnvVar evNames) s"

definition DeleteCronJobEnvVars ::
  "client \<Rightarrow> world \<Rightarrow> string \<Rightarrow> string \<Rightarrow> string list \<Rightarrow> calls \<Rightarrow>
     (error option \<times> patch_request list) \<times> calls" where
  "DeleteCronJobEnvVars k w namespace name evNames s =
     patchCronJobEnvVars k w namespace name (convertAppDeleteEnvVar evNames) s"

text \<open>
  The annotations of a service: \<open>None\<close> is the \<open>nil\<close> map. \<open>stored\<close> is what the
  service has before the patch, and the answer holds what it has afterwards.
\<close>

definition annotationsValue :: "(string \<times> string) list option \<Rightarrow> jvalue" where
  "annotationsValue annotations = (case annotations of None \<Rightarrow> JNull | Some kvs \<Rightarrow> JMap kvs)"

definition prepareServiceAnnotations ::
  "world \<Rightarrow> (string \<Rightarrow> string) \<Rightarrow> (string \<times> string) list option \<Rightarrow> error + string" where
  "prepareServiceAnnotations w tmpl annotations =
     (case json_Marshal w (annotationsValue annotations) of
        Inl err \<Rightarrow> Inl (Wrapped err ''failed to json encode'')
      | Inr b \<Rightarrow> Inr (tmpl b))"

definition patchServiceAnnotations ::
  "client \<Rightarrow> world \<Rightarrow> string \<Rightarrow> string \<Rightarrow> (string \<times> string) list option \<Rightarrow>
     (string \<times> string) list \<Rightarrow> calls \<Rightarrow> (error option \<times> (string \<times> string) list) \<times> calls" where
  "patchServiceAnnotations c w namespace svcName annotations stored s =
     (case prepareServiceAnnotations w patchServiceAnnotationsTmpl annotations of
        Inl err \<Rightarrow> ((Some err, stored), s)
      | Inr data \<Rightarrow>
          (case buildClient c w s of
             (Some err, s1) \<Rightarrow> ((Some err, stored), s1)
           | (None, s1) \<Rightarrow>
               (case servicesPatch w namespace svcName StrategicMergePatchType data stored of
                  Inl err \<Rightarrow> ((Wrap (Some err) ''patch namespace failed'', stored), s1)
                | Inr stored' \<Rightarrow> ((Wrap None ''patch namespace failed'', stored'), s1))))"

definition SetServiceAnnotations ::
  "client \<Rightarrow> world \<Rightarrow> string \<Rightarrow> string \<Rightarrow> (string \<times> string) list option \<Rightarrow>
     (string \<times> string) list \<Rightarrow> calls \<Rightarrow> (error option \<times> (string \<times> string) list) \<times> calls" where
  "SetServiceAnnotations c w namespace svcName annotations stored s =
     patchServiceAnnotations c w namespace svcName annotations stored s"

text \<open>The entry of the \<open>env\<close> array that marks a variable for deletion.\<close>

definition deleteDirective :: "world \<Rightarrow> string \<Rightarrow> string" where
  \<open>deleteDirective w evName =
     ''{"name":'' @ jsonQuote w evName @ '',"$patch":'' @ jsonQuote w ''delete'' @ ''}''\<close>

subsection \<open>What the caller of a run sees\<close>

text \<open>The values sent on the channel are the \<open>ChanSend\<close> actions.\<close>

fun isChanSend :: "action \<Rightarrow> bool" where
  "isChanSend (ChanSend v) = True"
| "isChanSend a = False"

text \<open>
  A session fails when its start-wait, the opening of its log stream, its end-wait or the
  reading of its exit code answers an error: the four early returns of the goroutine.
\<close>

definition sessionFailed :: "client \<Rightarrow> world \<Rightarrow> workload_spec \<Rightarrow> pod \<Rightarrow> calls \<Rightarrow> bool" where
  "sessionFailed k w podSpec pod s =
     (case waitPodStart k w pod (1 * second) (5 * minute) s of
        (Some err, s1) \<Rightarrow> True
      | (None, s1) \<Rightarrow>
          (case PodLogs k w (ws_namespace podSpec) (ws_name podSpec)
                  \<lparr>lo_lines = 10, lo_follow = True, lo_previous = False, lo_container = []\<rparr> s1 of
             (Inl err, s2) \<Rightarrow> True
           | (Inr stream, s2) \<Rightarrow>
               (case waitPodEnd k w pod (3 * second) (podRunTimeout k) s2 of
                  (Some err, s3) \<Rightarrow> True
                | (None, s3) \<Rightarrow> snd (fst (podExitCode k w pod s3)) \<noteq> None)))"





subsection \<open>Example worlds\<close>

definition exampleClient :: client where
  "exampleClient = \<lparr>conf = RestConfig ''https://cluster'', podRunTimeout = 60 * second, ingress = False\<rparr>"

definition exampleSpec :: workload_spec where
  "exampleSpec = \<lparr>ws_namespace = ''shop'', ws_name = ''web''\<rparr>"

definition examplePod :: "pod_phase \<Rightarrow> container_status list \<Rightarrow> pod" where
  "examplePod ph cs = \<lparr>pod_namespace = ''shop'', pod_name = ''web'', phase = ph, containerStatuses = cs\<rparr>"

text \<open>
  The quoting of a string that needs no escape, and a world where nothing fails: every
  deployment reports 1 replica, every pod stays pending and logs nothing.
\<close>

definition plainQuote :: "string \<Rightarrow> string" where
  "plainQuote x = CHR 0x22 # x @ [CHR 0x22]"

definition quietWorld :: world where
  "quietWorld =
     \<lparr>newForConfig = (\<lambda>c i. None),
      deploymentsGet = (\<lambda>ns name. Inr \<lparr>dep_namespace = ns, dep_name = name, status_replicas = 1\<rparr>),
      deploymentsPatch = (\<lambda>ns name t data. None),
      cronJobsPatch = (\<lambda>ns name t data. None),
      servicesPatch = (\<lambda>ns name t data cur. Inr cur),
      podsCreate = (\<lambda>ns p. Inr p),
      podsGet = (\<lambda>ns name i. Inr (examplePod PodPending [])),
      podsGetLogs = (\<lambda>ns name opts. Inr \<lparr>ls_bytes = [], ls_error = None\<rparr>),
      pollTicks = (\<lambda>interval timeout. timeout div interval),
      timeNow = ''2017-11-02 10:00:00 +0000 UTC'',
      jsonQuote = plainQuote\<rparr>"

text \<open>The same world, with the deployments reporting \<open>n\<close> replicas.\<close>

definition scaledWorld :: "32 word \<Rightarrow> world" where
  "scaledWorld n = quietWorld
     \<lparr>deploymentsGet := (\<lambda>ns name. Inr \<lparr>dep_namespace = ns, dep_name = name, status_replicas = n\<rparr>)\<rparr>"

text \<open>The same world, where no deployment exists.\<close>

definition absentWorld :: world where
  "absentWorld = quietWorld
     \<lparr>deploymentsGet := (\<lambda>ns name. Inl (StatusNotFound ''deployments not found''))\<rparr>"

text \<open>A manifest that records the replicas it was built with, and an interface that accepts it.\<close>

definition replicasManifest :: "workload_spec \<Rightarrow> 32 word \<Rightarrow> error + (string \<times> 32 word)" where
  "replicasManifest d r = Inr (ws_name d, r)"

definition acceptingApi :: "'m resource_api" where
  "acceptingApi = \<lparr>apiUpdate = (\<lambda>ns m. None), apiCreate = (\<lambda>ns m. None)\<rparr>"

definition startCalls :: calls where
  "startCalls = \<lparr>builds = 0, gets = 0\<rparr>"

text \<open>An interface where the resource does not exist yet, and one that forbids the update.\<close>

definition missingApi :: "'m resource_api" where
  "missingApi = \<lparr>apiUpdate = (\<lambda>ns m. Some (StatusNotFound ''not found'')), apiCreate = (\<lambda>ns m. None)\<rparr>"

definition forbiddenApi :: "'m resource_api" where
  "forbiddenApi = \<lparr>apiUpdate = (\<lambda>ns m. Some (ApiError ''forbidden'')), apiCreate = (\<lambda>ns m. None)\<rparr>"

text \<open>
  A pod manifest for a spec, and three worlds: one where the pod is pending twice and then
  failed; one where it runs, logs \<open>hello\<close> and succeeds with exit code 0; one where it
  succeeds but no container status has a terminated state.
\<close>

definition examplePodYaml :: "workload_spec \<Rightarrow> error + pod" where
  "examplePodYaml podSpec =
     Inr \<lparr>pod_namespace = ws_namespace podSpec, pod_name = ws_name podSpec,
          phase = PodPhaseOther [], containerStatuses = []\<rparr>"

definition failingWorld :: world where
  "failingWorld = quietWorld
     \<lparr>podsGet := (\<lambda>ns name i. Inr (examplePod (if i < 2 then PodPending else PodFailed) []))\<rparr>"

definition helloWorld :: world where
  "helloWorld = quietWorld
     \<lparr>podsGet := (\<lambda>ns name i.
         if i < 2 then Inr (examplePod PodRunning [\<lparr>cs_name = ''web'', terminated = None\<rparr>])
         else Inr (examplePod PodSucceeded [\<lparr>cs_name = ''web'', terminated = Some 0\<rparr>])),
      podsGetLogs := (\<lambda>ns name opts. Inr \<lparr>ls_bytes = ''hello'', ls_error = None\<rparr>)\<rparr>"

definition unterminatedWorld :: world where
  "unterminatedWorld = quietWorld
     \<lparr>podsGet := (\<lambda>ns name i.
         Inr (examplePod PodSucceeded [\<lparr>cs_name = ''web'', terminated = None\<rparr>]))\<rparr>"


text \<open>
  A control plane for the annotations of a service. It is not part of the repository: the
  patch is applied by the API server of Kubernetes, which merges a map-valued field of a
  strategic merge patch key by key (the keys of the patch are set, the keys it does not name
  stay, \<open>null\<close> in place of the map removes it). \<open>readAnnotationsPatch\<close> reads a body of
  the shape \<open>patchServiceAnnotationsTmpl\<close> makes, with strings that need no escape.
\<close>

fun stripPrefix :: "string \<Rightarrow> string \<Rightarrow> string option" where
  "stripPrefix [] cs = Some cs"
| "stripPrefix (p # ps) [] = None"
| "stripPrefix (p # ps) (c # cs) = (if p = c then stripPrefix ps cs else None)"

fun readString :: "string \<Rightarrow> (string \<times> string) option" where
  "readString [] = None"
| "readString (c # cs) =
     (if c = CHR 0x22 then Some ([], cs)
      else if c = CHR 0x5C then None
      else (case readString cs of None \<Rightarrow> None | Some (x, rest) \<Rightarrow> Some (c # x, rest)))"

fun readMembers :: "nat \<Rightarrow> string \<Rightarrow> ((string \<times> string) list \<times> string) option" where
  "readMembers 0 cs = None"
| "readMembers (Suc fuel) cs =
     (case stripPrefix [CHR 0x22] cs of
        None \<Rightarrow> None
      | Some r0 \<Rightarrow>
          (case readString r0 of
             None \<Rightarrow> None
           | Some (key, r1) \<Rightarrow>
               (case stripPrefix [CHR '':'', CHR 0x22] r1 of
                  None \<Rightarrow> None
                | Some r2 \<Rightarrow>
                    (case readString r2 of
                       None \<Rightarrow> None
                     | Some (v, r3) \<Rightarrow>
                         (case r3 of
                            [] \<Rightarrow> None
                          | d # r4 \<Rightarrow>
                              if d = CHR ''}'' then Some ([(key, v)], r4)
                              else if d = CHR '','' then
                                (case readMembers fuel r4 of
                                   None \<Rightarrow> None
                                 | Some (kvs, r5) \<Rightarrow> Some ((key, v) # kvs, r5))
                              else None)))))"

definition readAnnotationsPatch :: "string \<Rightarrow> (string \<times> string) list option option" where
  \<open>readAnnotationsPatch data =
     (case stripPrefix ''{"metadata":{"annotations": '' data of
        None \<Rightarrow> None
      | Some rest \<Rightarrow>
          if rest = ''null}}'' then Some None
          else if rest = ''{}}}'' then Some (Some [])
          else (case stripPrefix ''{'' rest of
                  None \<Rightarrow> None
                | Some r \<Rightarrow>
                    (case readMembers (length r) r of
                       None \<Rightarrow> None
                     | Some (kvs, tail) \<Rightarrow> if tail = ''}}'' then Some (Some kvs) else None)))\<close>

definition strategicMergeAnnotations ::
  "patch_type \<Rightarrow> string \<Rightarrow> (string \<times> string) list \<Rightarrow> error + (string \<times> string) list" where
  "strategicMergeAnnotations t data stored =
     (if t \<noteq> StrategicMergePatchType then Inl (ApiError ''unsupported media type'')
      else case readAnnotationsPatch data of
             None \<Rightarrow> Inl (ApiError ''unprocessable patch'')
           | Some None \<Rightarrow> Inr []
           | Some (Some kvs) \<Rightarrow> Inr (kvs @ filter (\<lambda>kv. fst kv \<notin> fst ` set kvs) stored))"

definition mergingWorld :: world where
  "mergingWorld = quietWorld\<lparr>servicesPatch := (\<lambda>ns name. strategicMergeAnnotations)\<rparr>"

section \<open>Properties\<close>

lemma currentPodReplicasFromDeploy_cases:
  "fst (currentPodReplicasFromDeploy k w namespace appName s) =
     (case newForConfig w (conf k) (builds s) of
        Some err \<Rightarrow> 1
      | None \<Rightarrow>
          (case deploymentsGet w namespace appName of
             Inl err \<Rightarrow> 1
           | Inr d \<Rightarrow> if sint (status_replicas d) < 1 then 1 else status_replicas d))"
  by (simp add: currentPodReplicasFromDeploy_def buildClient_def split: option.split sum.split)

lemma CreateOrUpdateDeploy_outcome:
  assumes "newForConfig w (conf k) (builds s) = None"
  shows "fst (CreateOrUpdateDeploy toK8sDeploy k w api deploySpec s) =
     (case toK8sDeploy deploySpec
             (fst (currentPodReplicasFromDeploy k w (ws_namespace deploySpec) (ws_name deploySpec)
                (s\<lparr>builds := Suc (builds s)\<rparr>))) of
        Inl err \<Rightarrow> (Some err, [])
      | Inr m \<Rightarrow>
          if IsNotFound (apiUpdate api (ws_namespace deploySpec) m)
          then (apiCreate api (ws_namespace deploySpec) m,
                [Update (ws_namespace deploySpec) m, Create (ws_namespace deploySpec) m])
          else (apiUpdate api (ws_namespace deploySpec) m, [Update (ws_namespace deploySpec) m]))"
  using assms
  by (simp add: CreateOrUpdateDeploy_def buildClient_def Let_def split: prod.split sum.split)

lemma sint_replicas_ge_1:
  "1 \<le> sint (fst (currentPodReplicasFromDeploy k w namespace appName s))"
  by (simp add: currentPodReplicasFromDeploy_cases split: option.split sum.split)

subsection \<open>Replicas of a deploy\<close>

text \<open>
  Claim C5. \<open>CreateOrUpdateDeploy\<close> builds the manifest it applies from the replica count
  it has just read from the control plane: every request it sends carries the manifest built
  with the seed, and when that manifest can be built a request with it is sent. The seed is
  the number of replicas in the status of the deployment read when that is at least 1, and
  it is 1 when the read fails (no such deployment, or any other error); a status below 1
  gives 1 as well.
\<close>

theorem CreateOrUpdateDeploy_seeds_replicas:
  assumes "newForConfig w (conf k) (builds s) = None"
    and "newForConfig w (conf k) (Suc (builds s)) = None"
    and "seed = (case deploymentsGet w (ws_namespace deploySpec) (ws_name deploySpec) of
                   Inl err \<Rightarrow> 1
                 | Inr d \<Rightarrow> if sint (status_replicas d) < 1 then 1 else status_replicas d)"
  shows "(\<forall>req \<in> set (snd (fst (CreateOrUpdateDeploy toK8sDeploy k w api deploySpec s))).
            \<exists>m. toK8sDeploy deploySpec seed = Inr m \<and>
                (req = Update (ws_namespace deploySpec) m \<or> req = Create (ws_namespace deploySpec) m))
       \<and> (\<forall>m. toK8sDeploy deploySpec seed = Inr m \<longrightarrow>
            hd (snd (fst (CreateOrUpdateDeploy toK8sDeploy k w api deploySpec s))) =
              Update (ws_namespace deploySpec) m
            \<and> snd (fst (CreateOrUpdateDeploy toK8sDeploy k w api deploySpec s)) \<noteq> [])
       \<and> (\<forall>d. deploymentsGet w (ws_namespace deploySpec) (ws_name deploySpec) = Inr d
              \<and> 1 \<le> sint (status_replicas d) \<longrightarrow> seed = status_replicas d)
       \<and> (\<forall>err. deploymentsGet w (ws_namespace deploySpec) (ws_name deploySpec) = Inl err
              \<longrightarrow> seed = 1)"
proof -
  have r: "fst (currentPodReplicasFromDeploy k w (ws_namespace deploySpec) (ws_name deploySpec)
                (s\<lparr>builds := Suc (builds s)\<rparr>)) = seed"
    using assms(2,3)
    by (simp add: currentPodReplicasFromDeploy_cases split: sum.split)
  have "(\<forall>req \<in> set (snd (fst (CreateOrUpdateDeploy toK8sDeploy k w api deploySpec s))).
            \<exists>m. toK8sDeploy deploySpec seed = Inr m \<and>
                (req = Update (ws_namespace deploySpec) m \<or> req = Create (ws_namespace deploySpec) m))
       \<and> (\<forall>m. toK8sDeploy deploySpec seed = Inr m \<longrightarrow>
            hd (snd (fst (CreateOrUpdateDeploy toK8sDeploy k w api deploySpec s))) =
              Update (ws_namespace deploySpec) m
            \<and> snd (fst (CreateOrUpdateDeploy toK8sDeploy k w api deploySpec s)) \<noteq> [])"
    unfolding CreateOrUpdateDeploy_outcome [OF assms(1)] r
    by (auto split: sum.split)
  moreover have "\<forall>d. deploymentsGet w (ws_namespace deploySpec) (ws_name deploySpec) = Inr d
              \<and> 1 \<le> sint (status_replicas d) \<longrightarrow> seed = status_replicas d"
    using assms(3) by auto
  moreover have "\<forall>err. deploymentsGet w (ws_namespace deploySpec) (ws_name deploySpec) = Inl err
              \<longrightarrow> seed = 1"
    using assms(3) by auto
  ultimately show ?thesis by blast
qed

theorem CreateOrUpdateDeploy_seeds_replicas_witness:
  "snd (fst (CreateOrUpdateDeploy replicasManifest exampleClient (scaledWorld 3) acceptingApi
        exampleSpec startCalls)) = [Update ''shop'' (''web'', 3)]
   \<and> hd (snd (fst (CreateOrUpdateDeploy replicasManifest exampleClient absentWorld missingApi
        exampleSpec startCalls))) = Update ''shop'' (''web'', 1)"
proof -
  have seed: "(3 :: 32 word) =
      (case deploymentsGet (scaledWorld 3) (ws_namespace exampleSpec) (ws_name exampleSpec) of
         Inl err \<Rightarrow> 1
       | Inr d \<Rightarrow> if sint (status_replicas d) < 1 then 1 else status_replicas d)"
    by (simp add: scaledWorld_def quietWorld_def)
  have b0: "newForConfig (scaledWorld 3) (conf exampleClient) (builds startCalls) = None"
    by (simp add: scaledWorld_def quietWorld_def)
  have b1: "newForConfig (scaledWorld 3) (conf exampleClient) (Suc (builds startCalls)) = None"
    by (simp add: scaledWorld_def quietWorld_def)
  have built: "replicasManifest exampleSpec r = Inr (''web'', r)" for r :: "32 word"
    by (simp add: replicasManifest_def exampleSpec_def)
  let ?reqs = "snd (fst (CreateOrUpdateDeploy replicasManifest exampleClient (scaledWorld 3)
                  acceptingApi exampleSpec startCalls))"
  from CreateOrUpdateDeploy_seeds_replicas [OF b0 b1 seed, of replicasManifest acceptingApi]
  have first: "hd ?reqs = Update (ws_namespace exampleSpec) (''web'', 3)" "?reqs \<noteq> []"
    using built by blast+
  have "length ?reqs = 1"
    by (simp add: CreateOrUpdateDeploy_def buildClient_def currentPodReplicasFromDeploy_def
        scaledWorld_def quietWorld_def replicasManifest_def acceptingApi_def exampleSpec_def exampleClient_def
        startCalls_def IsNotFound_def)
  with first have 1: "?reqs = [Update (ws_namespace exampleSpec) (''web'', 3)]"
    by (cases ?reqs) simp_all
  have seed': "(1 :: 32 word) =
      (case deploymentsGet absentWorld (ws_namespace exampleSpec) (ws_name exampleSpec) of
         Inl err \<Rightarrow> 1
       | Inr d \<Rightarrow> if sint (status_replicas d) < 1 then 1 else status_replicas d)"
    by (simp add: absentWorld_def)
  have b0': "newForConfig absentWorld (conf exampleClient) (builds startCalls) = None"
    by (simp add: absentWorld_def quietWorld_def)
  have b1': "newForConfig absentWorld (conf exampleClient) (Suc (builds startCalls)) = None"
    by (simp add: absentWorld_def quietWorld_def)
  from CreateOrUpdateDeploy_seeds_replicas [OF b0' b1' seed', of replicasManifest missingApi]
  have 2: "hd (snd (fst (CreateOrUpdateDeploy replicasManifest exampleClient absentWorld missingApi
        exampleSpec startCalls))) = Update (ws_namespace exampleSpec) (''web'', 1)"
    using built by blast
  from 1 2 show ?thesis by (simp add: exampleSpec_def)
qed

text \<open>
  Claim C10. \<open>currentPodReplicasFromDeploy\<close> never answers less than 1: it answers 1 when
  the client cannot be built, when the read fails, and when the deployment read reports fewer
  than 1 replica; so \<open>CreateOrUpdateDeploy\<close> applies a deployment that is scaled to 0 with
  the manifest built for 1 replica.
\<close>

theorem currentPodReplicasFromDeploy_at_least_one:
  "1 \<le> sint (fst (currentPodReplicasFromDeploy k w namespace appName s))
   \<and> (newForConfig w (conf k) (builds s) \<noteq> None \<longrightarrow>
        fst (currentPodReplicasFromDeploy k w namespace appName s) = 1)
   \<and> (\<forall>err. deploymentsGet w namespace appName = Inl err \<longrightarrow>
        fst (currentPodReplicasFromDeploy k w namespace appName s) = 1)
   \<and> (\<forall>d. deploymentsGet w namespace appName = Inr d \<and> sint (status_replicas d) < 1 \<longrightarrow>
        fst (currentPodReplicasFromDeploy k w namespace appName s) = 1)
   \<and> (\<forall>d m. newForConfig w (conf k) (builds s) = None
          \<and> deploymentsGet w (ws_namespace deploySpec) (ws_name deploySpec) = Inr d
          \<and> sint (status_replicas d) < 1 \<and> toK8sDeploy deploySpec 1 = Inr m \<longrightarrow>
        hd (snd (fst (CreateOrUpdateDeploy toK8sDeploy k w api deploySpec s))) =
          Update (ws_namespace deploySpec) m
        \<and> snd (fst (CreateOrUpdateDeploy toK8sDeploy k w api deploySpec s)) \<noteq> [])"
proof (intro conjI allI impI)
  show "1 \<le> sint (fst (currentPodReplicasFromDeploy k w namespace appName s))"
    by (rule sint_replicas_ge_1)
next
  assume "newForConfig w (conf k) (builds s) \<noteq> None"
  then show "fst (currentPodReplicasFromDeploy k w namespace appName s) = 1"
    by (auto simp add: currentPodReplicasFromDeploy_cases)
next
  fix err assume "deploymentsGet w namespace appName = Inl err"
  then show "fst (currentPodReplicasFromDeploy k w namespace appName s) = 1"
    by (simp add: currentPodReplicasFromDeploy_cases split: option.split)
next
  fix d assume "deploymentsGet w namespace appName = Inr d \<and> sint (status_replicas d) < 1"
  then show "fst (currentPodReplicasFromDeploy k w namespace appName s) = 1"
    by (simp add: currentPodReplicasFromDeploy_cases split: option.split)
next
  fix d m
  assume a: "newForConfig w (conf k) (builds s) = None
          \<and> deploymentsGet w (ws_namespace deploySpec) (ws_name deploySpec) = Inr d
          \<and> sint (status_replicas d) < 1 \<and> toK8sDeploy deploySpec 1 = Inr m"
  then have r: "fst (currentPodReplicasFromDeploy k w (ws_namespace deploySpec) (ws_name deploySpec)
                (s\<lparr>builds := Suc (builds s)\<rparr>)) = 1"
    by (simp add: currentPodReplicasFromDeploy_cases split: option.split)
  from a have b: "newForConfig w (conf k) (builds s) = None" by simp
  from a show "hd (snd (fst (CreateOrUpdateDeploy toK8sDeploy k w api deploySpec s))) =
          Update (ws_namespace deploySpec) m"
    unfolding CreateOrUpdateDeploy_outcome [OF b] r by simp
  from a show "snd (fst (CreateOrUpdateDeploy toK8sDeploy k w api deploySpec s)) \<noteq> []"
    unfolding CreateOrUpdateDeploy_outcome [OF b] r by simp
qed

theorem currentPodReplicasFromDeploy_at_least_one_witness:
  "fst (currentPodReplicasFromDeploy exampleClient (scaledWorld 0) ''shop'' ''web'' startCalls) = 1
   \<and> snd (fst (CreateOrUpdateDeploy replicasManifest exampleClient (scaledWorld 0) acceptingApi
        exampleSpec startCalls)) = [Update ''shop'' (''web'', 1)]"
proof -
  let ?d = "\<lparr>dep_namespace = ''shop'', dep_name = ''web'', status_replicas = 0 :: 32 word\<rparr>"
  have g: "deploymentsGet (scaledWorld 0) ''shop'' ''web'' = Inr ?d \<and> sint (status_replicas ?d) < 1"
    by (simp add: scaledWorld_def quietWorld_def)
  from currentPodReplicasFromDeploy_at_least_one
         [of exampleClient "scaledWorld 0" "''shop''" "''web''" startCalls]
  have one: "fst (currentPodReplicasFromDeploy exampleClient (scaledWorld 0) ''shop'' ''web'' startCalls) = 1"
    using g by blast
  have "snd (fst (CreateOrUpdateDeploy replicasManifest exampleClient (scaledWorld 0) acceptingApi
        exampleSpec startCalls)) = [Update ''shop'' (''web'', 1)]"
    by (simp add: CreateOrUpdateDeploy_def buildClient_def currentPodReplicasFromDeploy_def
        scaledWorld_def quietWorld_def replicasManifest_def acceptingApi_def exampleSpec_def exampleClient_def
        startCalls_def IsNotFound_def)
  with one show ?thesis by simp
qed

subsection \<open>Create or update\<close>

lemma updateFirstCreateOnNotFound_shape:
  "updateFirstCreateOnNotFound api ns m
     (if IsNotFound (apiUpdate api ns m)
      then (apiCreate api ns m, [Update ns m, Create ns m])
      else (apiUpdate api ns m, [Update ns m]))"
  by (simp add: updateFirstCreateOnNotFound_def)

lemma CreateOrUpdateSecret_outcome:
  assumes "newForConfig w (conf k) (builds s) = None"
  shows "fst (CreateOrUpdateSecret k w api namespace secretName data s) =
     (let sec = \<lparr>sec_type = ''Opaque'', sec_name = secretName, sec_namespace = namespace,
                 sec_data = data\<rparr>
      in if IsNotFound (apiUpdate api namespace sec)
         then (apiCreate api namespace sec, [Update namespace sec, Create namespace sec])
         else (apiUpdate api namespace sec, [Update namespace sec]))"
  using assms by (simp add: CreateOrUpdateSecret_def buildClient_def Let_def)

lemma CreateOrUpdateConfigMap_outcome:
  assumes "newForConfig w (conf k) (builds s) = None"
  shows "fst (CreateOrUpdateConfigMap configMapSpec k w api namespace name data s) =
     (let cm = configMapSpec namespace name data
      in if IsNotFound (apiUpdate api namespace cm)
         then (apiCreate api namespace cm, [Update namespace cm, Create namespace cm])
         else (apiUpdate api namespace cm, [Update namespace cm]))"
  using assms by (simp add: CreateOrUpdateConfigMap_def buildClient_def Let_def)

lemma CreateOrUpdateCronJob_outcome:
  assumes "newForConfig w (conf k) (builds s) = None" and "toK8sCronJob cronJobSpec = Inr m"
  shows "fst (CreateOrUpdateCronJob toK8sCronJob k w api cronJobSpec s) =
     (if IsNotFound (apiUpdate api (ws_namespace cronJobSpec) m)
      then (apiCreate api (ws_namespace cronJobSpec) m,
            [Update (ws_namespace cronJobSpec) m, Create (ws_namespace cronJobSpec) m])
      else (apiUpdate api (ws_namespace cronJobSpec) m, [Update (ws_namespace cronJobSpec) m]))"
  using assms by (simp add: CreateOrUpdateCronJob_def buildClient_def Let_def)

lemma CreateOrUpdateAutoscale_outcome:
  assumes "newForConfig w (conf k) (builds s) = None" and "newHPA a = Some h"
  shows "CreateOrUpdateAutoscale k w api a s =
     Some (if IsNotFound (apiUpdate api (app_name a) h)
           then (apiCreate api (app_name a) h, [Update (app_name a) h, Create (app_name a) h])
           else (apiUpdate api (app_name a) h, [Update (app_name a) h]),
           s\<lparr>builds := Suc (builds s)\<rparr>)"
  using assms by (simp add: CreateOrUpdateAutoscale_def buildClient_def Let_def)

text \<open>
  Claim C4. Once the client set is built and the manifest is made, each of the five
  create-or-update operations (secret, config map, deployment, cron job, autoscaler) sends
  the update first, sends a create exactly when the update answered NotFound, and returns
  any other answer of the update as it is, with no create.
\<close>

theorem create_or_update_update_first:
  assumes "newForConfig w (conf k) (builds s) = None"
  shows "updateFirstCreateOnNotFound apiS namespace
           \<lparr>sec_type = ''Opaque'', sec_name = secretName, sec_namespace = namespace, sec_data = secData\<rparr>
           (fst (CreateOrUpdateSecret k w apiS namespace secretName secData s))
       \<and> updateFirstCreateOnNotFound apiC namespace (configMapSpec namespace name cmData)
           (fst (CreateOrUpdateConfigMap configMapSpec k w apiC namespace name cmData s))
       \<and> (\<forall>m. toK8sDeploy deploySpec
                 (fst (currentPodReplicasFromDeploy k w (ws_namespace deploySpec) (ws_name deploySpec)
                        (s\<lparr>builds := Suc (builds s)\<rparr>))) = Inr m \<longrightarrow>
             updateFirstCreateOnNotFound apiD (ws_namespace deploySpec) m
               (fst (CreateOrUpdateDeploy toK8sDeploy k w apiD deploySpec s)))
       \<and> (\<forall>m. toK8sCronJob cronJobSpec = Inr m \<longrightarrow>
             updateFirstCreateOnNotFound apiJ (ws_namespace cronJobSpec) m
               (fst (CreateOrUpdateCronJob toK8sCronJob k w apiJ cronJobSpec s)))
       \<and> (\<forall>h. newHPA a = Some h \<longrightarrow>
             (\<exists>r. CreateOrUpdateAutoscale k w apiH a s = Some r
                \<and> updateFirstCreateOnNotFound apiH (app_name a) h (fst r)))"
proof (intro conjI allI impI)
  show "updateFirstCreateOnNotFound apiS namespace
           \<lparr>sec_type = ''Opaque'', sec_name = secretName, sec_namespace = namespace, sec_data = secData\<rparr>
           (fst (CreateOrUpdateSecret k w apiS namespace secretName secData s))"
    unfolding CreateOrUpdateSecret_outcome [OF assms] Let_def
    by (rule updateFirstCreateOnNotFound_shape)
next
  show "updateFirstCreateOnNotFound apiC namespace (configMapSpec namespace name cmData)
           (fst (CreateOrUpdateConfigMap configMapSpec k w apiC namespace name cmData s))"
    unfolding CreateOrUpdateConfigMap_outcome [OF assms] Let_def
    by (rule updateFirstCreateOnNotFound_shape)
next
  fix m
  assume "toK8sDeploy deploySpec
                 (fst (currentPodReplicasFromDeploy k w (ws_namespace deploySpec) (ws_name deploySpec)
                        (s\<lparr>builds := Suc (builds s)\<rparr>))) = Inr m"
  then have "fst (CreateOrUpdateDeploy toK8sDeploy k w apiD deploySpec s) =
     (if IsNotFound (apiUpdate apiD (ws_namespace deploySpec) m)
      then (apiCreate apiD (ws_namespace deploySpec) m,
            [Update (ws_namespace deploySpec) m, Create (ws_namespace deploySpec) m])
      else (apiUpdate apiD (ws_namespace deploySpec) m, [Update (ws_namespace deploySpec) m]))"
    by (simp add: CreateOrUpdateDeploy_outcome [OF assms])
  then show "updateFirstCreateOnNotFound apiD (ws_namespace deploySpec) m
               (fst (CreateOrUpdateDeploy toK8sDeploy k w apiD deploySpec s))"
    by (simp only: updateFirstCreateOnNotFound_shape)
next
  fix m
  assume "toK8sCronJob cronJobSpec = Inr m"
  then have "fst (CreateOrUpdateCronJob toK8sCronJob k w apiJ cronJobSpec s) =
     (if IsNotFound (apiUpdate apiJ (ws_namespace cronJobSpec) m)
      then (apiCreate apiJ (ws_namespace cronJobSpec) m,
            [Update (ws_namespace cronJobSpec) m, Create (ws_namespace cronJobSpec) m])
      else (apiUpdate apiJ (ws_namespace cronJobSpec) m, [Update (ws_namespace cronJobSpec) m]))"
    using assms by (rule CreateOrUpdateCronJob_outcome [rotated])
  then show "updateFirstCreateOnNotFound apiJ (ws_namespace cronJobSpec) m
               (fst (CreateOrUpdateCronJob toK8sCronJob k w apiJ cronJobSpec s))"
    by (simp only: updateFirstCreateOnNotFound_shape)
next
  fix h
  assume "newHPA a = Some h"
  then have "CreateOrUpdateAutoscale k w apiH a s =
     Some (if IsNotFound (apiUpdate apiH (app_name a) h)
           then (apiCreate apiH (app_name a) h, [Update (app_name a) h, Create (app_name a) h])
           else (apiUpdate apiH (app_name a) h, [Update (app_name a) h]),
           s\<lparr>builds := Suc (builds s)\<rparr>)"
    using assms by (rule CreateOrUpdateAutoscale_outcome [rotated])
  then show "\<exists>r. CreateOrUpdateAutoscale k w apiH a s = Some r
                \<and> updateFirstCreateOnNotFound apiH (app_name a) h (fst r)"
    using updateFirstCreateOnNotFound_shape [of apiH "app_name a" h] by simp
qed

theorem create_or_update_update_first_witness:
  "fst (CreateOrUpdateSecret exampleClient quietWorld missingApi ''shop'' ''db'' [] startCalls) =
     (None,
      [Update ''shop'' \<lparr>sec_type = ''Opaque'', sec_name = ''db'', sec_namespace = ''shop'', sec_data = []\<rparr>,
       Create ''shop'' \<lparr>sec_type = ''Opaque'', sec_name = ''db'', sec_namespace = ''shop'', sec_data = []\<rparr>])
   \<and> fst (CreateOrUpdateSecret exampleClient quietWorld forbiddenApi ''shop'' ''db'' [] startCalls) =
     (Some (ApiError ''forbidden''),
      [Update ''shop'' \<lparr>sec_type = ''Opaque'', sec_name = ''db'', sec_namespace = ''shop'', sec_data = []\<rparr>])"
proof -
  have b: "newForConfig quietWorld (conf exampleClient) (builds startCalls) = None"
    by (simp add: quietWorld_def)
  have nf: "IsNotFound (apiUpdate missingApi ns (m :: secret))" for ns m
    by (simp add: missingApi_def IsNotFound_def)
  have fb: "\<not> IsNotFound (apiUpdate forbiddenApi ns (m :: secret))" for ns m
    by (simp add: forbiddenApi_def IsNotFound_def)
  from create_or_update_update_first [OF b, of missingApi "''shop''" "''db''" "[]"]
  have 1: "updateFirstCreateOnNotFound missingApi ''shop''
      \<lparr>sec_type = ''Opaque'', sec_name = ''db'', sec_namespace = ''shop'', sec_data = []\<rparr>
      (fst (CreateOrUpdateSecret exampleClient quietWorld missingApi ''shop'' ''db'' [] startCalls))"
    by (rule conjunct1)
  from create_or_update_update_first [OF b, of forbiddenApi "''shop''" "''db''" "[]"]
  have 2: "updateFirstCreateOnNotFound forbiddenApi ''shop''
      \<lparr>sec_type = ''Opaque'', sec_name = ''db'', sec_namespace = ''shop'', sec_data = []\<rparr>
      (fst (CreateOrUpdateSecret exampleClient quietWorld forbiddenApi ''shop'' ''db'' [] startCalls))"
    by (rule conjunct1)
  from 1 nf have "fst (CreateOrUpdateSecret exampleClient quietWorld missingApi ''shop'' ''db'' [] startCalls) =
     (apiCreate missingApi ''shop'' \<lparr>sec_type = ''Opaque'', sec_name = ''db'', sec_namespace = ''shop'', sec_data = []\<rparr>,
      [Update ''shop'' \<lparr>sec_type = ''Opaque'', sec_name = ''db'', sec_namespace = ''shop'', sec_data = []\<rparr>,
       Create ''shop'' \<lparr>sec_type = ''Opaque'', sec_name = ''db'', sec_namespace = ''shop'', sec_data = []\<rparr>])"
    unfolding updateFirstCreateOnNotFound_def by (simp add: prod_eq_iff)
  moreover from 2 fb have "fst (CreateOrUpdateSecret exampleClient quietWorld forbiddenApi ''shop'' ''db'' [] startCalls) =
     (apiUpdate forbiddenApi ''shop'' \<lparr>sec_type = ''Opaque'', sec_name = ''db'', sec_namespace = ''shop'', sec_data = []\<rparr>,
      [Update ''shop'' \<lparr>sec_type = ''Opaque'', sec_name = ''db'', sec_namespace = ''shop'', sec_data = []\<rparr>])"
    unfolding updateFirstCreateOnNotFound_def by (simp add: prod_eq_iff)
  ultimately show ?thesis
    by (simp add: missingApi_def forbiddenApi_def)
qed

subsection \<open>Polling and the waits\<close>

lemma pollLoop_first_hit:
  fixes cond :: "calls \<Rightarrow> (bool \<times> error option) \<times> calls"
  assumes adv: "\<And>s. snd (cond s) = s\<lparr>gets := Suc (gets s)\<rparr>"
    and notyet: "\<And>j s. j < i \<Longrightarrow> gets s = g + j \<Longrightarrow> fst (cond s) = (False, None)"
    and hit: "\<And>s. gets s = g + i \<Longrightarrow> fst (cond s) = (d, e)"
    and stop: "d \<or> e \<noteq> None"
    and start: "gets s = g"
    and intime: "i \<le> n"
  shows "pollLoop n cond s = (e, s\<lparr>gets := Suc (g + i)\<rparr>)"
  using notyet hit start intime
proof (induction i arbitrary: n s g)
  case 0
  then have c: "cond s = ((d, e), s\<lparr>gets := Suc (gets s)\<rparr>)"
    using adv [of s] by (simp add: prod_eq_iff)
  show ?case using c stop "0.prems"(3) by (cases n) auto
next
  case (Suc i)
  from Suc.prems(4) obtain m where n: "n = Suc m" and m: "i \<le> m" by (cases n) auto
  have c: "cond s = ((False, None), s\<lparr>gets := Suc (gets s)\<rparr>)"
    using adv [of s] Suc.prems(1) [of 0 s] Suc.prems(3) by (simp add: prod_eq_iff)
  have "pollLoop m cond (s\<lparr>gets := Suc (gets s)\<rparr>) = (e, s\<lparr>gets := Suc (gets s)\<rparr>\<lparr>gets := Suc (Suc g + i)\<rparr>)"
  proof (rule Suc.IH [OF _ _ _ m])
    fix j and s' :: calls assume "j < i" "gets s' = Suc g + j"
    then show "fst (cond s') = (False, None)" using Suc.prems(1) [of "Suc j" s'] by simp
  next
    fix s' :: calls assume "gets s' = Suc g + i"
    then show "fst (cond s') = (d, e)" using Suc.prems(2) [of s'] by simp
  next
    show "gets (s\<lparr>gets := Suc (gets s)\<rparr>) = Suc g" using Suc.prems(3) by simp
  qed
  then show ?case using c n by simp
qed


lemma waitPodStart_condition_adv:
  "snd (waitPodStart_condition w pod s) = s\<lparr>gets := Suc (gets s)\<rparr>"
  by (simp add: waitPodStart_condition_def split: sum.split)

lemma waitPodEnd_condition_adv:
  "snd (waitPodEnd_condition w pod s) = s\<lparr>gets := Suc (gets s)\<rparr>"
  by (simp add: waitPodEnd_condition_def split: sum.split)

lemma waitPodStart_returns_failed:
  assumes build: "newForConfig w (conf k) (builds s) = None"
    and pending: "\<forall>j<i. \<exists>q. podsGet w (pod_namespace pod) (pod_name pod) (gets s + j) = Inr q
                    \<and> phase q \<noteq> PodFailed \<and> phase q \<noteq> PodRunning \<and> phase q \<noteq> PodSucceeded"
    and failed: "podsGet w (pod_namespace pod) (pod_name pod) (gets s + i) = Inr p" "phase p = PodFailed"
    and intime: "i \<le> pollTicks w checkInterval timeout"
  shows "waitPodStart k w pod checkInterval timeout s =
           (Some ErrPodRunFailed, s\<lparr>builds := Suc (builds s), gets := Suc (gets s + i)\<rparr>)"
proof -
  let ?s1 = "s\<lparr>builds := Suc (builds s)\<rparr>"
  have "pollLoop (pollTicks w checkInterval timeout) (waitPodStart_condition w pod) ?s1 =
          (Some ErrPodRunFailed, ?s1\<lparr>gets := Suc (gets s + i)\<rparr>)"
  proof (rule pollLoop_first_hit [where d = True and i = i and g = "gets s"])
    fix j and s' :: calls assume "j < i" "gets s' = gets s + j"
    then show "fst (waitPodStart_condition w pod s') = (False, None)"
      using pending by (auto simp add: waitPodStart_condition_def)
  next
    fix s' :: calls assume "gets s' = gets s + i"
    then show "fst (waitPodStart_condition w pod s') = (True, Some ErrPodRunFailed)"
      using failed by (simp add: waitPodStart_condition_def)
  qed (simp_all add: waitPodStart_condition_adv intime)
  then show ?thesis
    using build by (simp add: waitPodStart_def buildClient_def PollImmediate_def)
qed

lemma waitPodEnd_returns_ended:
  assumes build: "newForConfig w (conf k) (builds s) = None"
    and running: "\<forall>j<i. \<exists>q. podsGet w (pod_namespace pod) (pod_name pod) (gets s + j) = Inr q
                    \<and> phase q \<noteq> PodSucceeded \<and> phase q \<noteq> PodFailed"
    and ended: "podsGet w (pod_namespace pod) (pod_name pod) (gets s + i) = Inr p"
               "phase p = PodSucceeded \<or> phase p = PodFailed"
    and intime: "i \<le> pollTicks w checkInterval timeout"
  shows "waitPodEnd k w pod checkInterval timeout s =
           (None, s\<lparr>builds := Suc (builds s), gets := Suc (gets s + i)\<rparr>)"
proof -
  let ?s1 = "s\<lparr>builds := Suc (builds s)\<rparr>"
  have "pollLoop (pollTicks w checkInterval timeout) (waitPodEnd_condition w pod) ?s1 =
          (None, ?s1\<lparr>gets := Suc (gets s + i)\<rparr>)"
  proof (rule pollLoop_first_hit [where d = True and i = i and g = "gets s"])
    fix j and s' :: calls assume "j < i" "gets s' = gets s + j"
    then show "fst (waitPodEnd_condition w pod s') = (False, None)"
      using running by (auto simp add: waitPodEnd_condition_def)
  next
    fix s' :: calls assume "gets s' = gets s + i"
    then show "fst (waitPodEnd_condition w pod s') = (True, None)"
      using ended by (simp add: waitPodEnd_condition_def)
  qed (simp_all add: waitPodEnd_condition_adv intime)
  then show ?thesis
    using build by (simp add: waitPodEnd_def buildClient_def PollImmediate_def)
qed

text \<open>
  The other way a start-wait ends with an error: when no read within the ticks of the timeout
  shows the running, succeeded or failed phase, the answer is the timeout error of the
  poller.
\<close>

lemma pollLoop_timeout:
  fixes cond :: "calls \<Rightarrow> (bool \<times> error option) \<times> calls"
  assumes adv: "\<And>s. snd (cond s) = s\<lparr>gets := Suc (gets s)\<rparr>"
    and notyet: "\<And>j s. j \<le> n \<Longrightarrow> gets s = g + j \<Longrightarrow> fst (cond s) = (False, None)"
    and start: "gets s = g"
  shows "pollLoop n cond s = (Some ErrWaitTimeout, s\<lparr>gets := Suc (g + n)\<rparr>)"
  using notyet start
proof (induction n arbitrary: s g)
  case 0
  then have "cond s = ((False, None), s\<lparr>gets := Suc (gets s)\<rparr>)"
    using adv [of s] by (simp add: prod_eq_iff)
  with 0 show ?case by simp
next
  case (Suc n)
  have c: "cond s = ((False, None), s\<lparr>gets := Suc (gets s)\<rparr>)"
    using adv [of s] Suc.prems(1) [of 0 s] Suc.prems(2) by (simp add: prod_eq_iff)
  have "pollLoop n cond (s\<lparr>gets := Suc (gets s)\<rparr>) =
          (Some ErrWaitTimeout, s\<lparr>gets := Suc (gets s)\<rparr>\<lparr>gets := Suc (Suc g + n)\<rparr>)"
  proof (rule Suc.IH)
    fix j and s' :: calls assume "j \<le> n" "gets s' = Suc g + j"
    then show "fst (cond s') = (False, None)" using Suc.prems(1) [of "Suc j" s'] by simp
  next
    show "gets (s\<lparr>gets := Suc (gets s)\<rparr>) = Suc g" using Suc.prems(2) by simp
  qed
  with c show ?case by simp
qed

lemma waitPodStart_times_out:
  assumes build: "newForConfig w (conf k) (builds s) = None"
    and pending: "\<forall>j \<le> pollTicks w checkInterval timeout.
                    \<exists>q. podsGet w (pod_namespace pod) (pod_name pod) (gets s + j) = Inr q
                    \<and> phase q \<noteq> PodFailed \<and> phase q \<noteq> PodRunning \<and> phase q \<noteq> PodSucceeded"
  shows "fst (waitPodStart k w pod checkInterval timeout s) = Some ErrWaitTimeout"
proof -
  let ?s1 = "s\<lparr>builds := Suc (builds s)\<rparr>"
  have "pollLoop (pollTicks w checkInterval timeout) (waitPodStart_condition w pod) ?s1 =
          (Some ErrWaitTimeout, ?s1\<lparr>gets := Suc (gets s + pollTicks w checkInterval timeout)\<rparr>)"
  proof (rule pollLoop_timeout [where g = "gets s"])
    fix j and s' :: calls assume "j \<le> pollTicks w checkInterval timeout" "gets s' = gets s + j"
    then show "fst (waitPodStart_condition w pod s') = (False, None)"
      using pending by (auto simp add: waitPodStart_condition_def)
  qed (simp_all add: waitPodStart_condition_adv)
  then show ?thesis
    using build by (simp add: waitPodStart_def buildClient_def PollImmediate_def)
qed

lemma goroutine_start_failure:
  assumes "fst (waitPodStart k w pod (1 * second) (5 * minute) s) = Some err"
  shows "fst (goroutine k w podSpec pod s) = [WaitPodStart (Some err), WClose, ChanClose]"
  using assms
  by (cases "waitPodStart k w pod (1 * second) (5 * minute) s")
     (simp add: goroutine_def goroutineBody_def)

lemma PodRun_created:
  assumes "newForConfig w (conf k) (builds s) = None"
    and "toK8sPod podSpec = Inr y" and "podsCreate w (ws_namespace podSpec) y = Inr pod"
  shows "fst (PodRun toK8sPod k w podSpec s) =
           Inr (fst (goroutine k w podSpec pod (s\<lparr>builds := Suc (builds s)\<rparr>)))"
  using assms by (simp add: PodRun_def buildClient_def split: prod.split)

lemma pollLoop_unfold:
  "pollLoop n condition s =
     (case condition s of
        ((done, err), s') \<Rightarrow>
          if err \<noteq> None then (err, s')
          else if done then (None, s')
          else if n = 0 then (Some ErrWaitTimeout, s')
          else pollLoop (n - 1) condition s')"
  by (cases n) (simp_all split: prod.split)

subsection \<open>The goroutine of a run\<close>

lemma goroutine_cases:
  "goroutine k w podSpec pod s =
     (case waitPodStart k w pod (1 * second) (5 * minute) s of
        (Some err, s1) \<Rightarrow> ([WaitPodStart (Some err), WClose, ChanClose], s1)
      | (None, s1) \<Rightarrow>
          (case PodLogs k w (ws_namespace podSpec) (ws_name podSpec)
                  \<lparr>lo_lines = 10, lo_follow = True, lo_previous = False, lo_container = []\<rparr> s1 of
             (Inl err, s2) \<Rightarrow> ([WaitPodStart None, OpenPodLogs (Some err), WClose, ChanClose], s2)
           | (Inr stream, s2) \<Rightarrow>
               (case waitPodEnd k w pod (3 * second) (podRunTimeout k) s2 of
                  (Some err, s3) \<Rightarrow>
                    ([WaitPodStart None, OpenPodLogs None, IoCopy (ls_bytes stream) (ls_error stream), WaitPodEnd (Some err),
                      WClose, ChanClose], s3)
                | (None, s3) \<Rightarrow>
                    (case podExitCode k w pod s3 of
                       ((exitCode, Some err), s4) \<Rightarrow>
                         ([WaitPodStart None, OpenPodLogs None, IoCopy (ls_bytes stream) (ls_error stream), WaitPodEnd None,
                           PodExitCode exitCode (Some err), WClose, ChanClose], s4)
                     | ((exitCode, None), s4) \<Rightarrow>
                         ([WaitPodStart None, OpenPodLogs None, IoCopy (ls_bytes stream) (ls_error stream), WaitPodEnd None,
                           PodExitCode exitCode None, ChanSend exitCode,
                           GoDeletePod (pod_namespace pod) (pod_name pod), WClose, ChanClose], s4)))))"
  by (simp add: goroutine_def goroutineBody_def Let_def split: prod.split option.split sum.split)


lemma goroutine_sends:
  assumes "goroutine k w podSpec pod s = (acts, s')"
  shows "length (filter isChanSend acts) \<le> 1"
    and "\<exists>body. acts = body @ [WClose, ChanClose] \<and> WClose \<notin> set body \<and> ChanClose \<notin> set body"
    and "sessionFailed k w podSpec pod s \<Longrightarrow> filter isChanSend acts = []"
    and "\<not> sessionFailed k w podSpec pod s \<Longrightarrow> \<exists>v. filter isChanSend acts = [ChanSend v]"
  using assms
  unfolding goroutine_cases sessionFailed_def
  by (auto split: prod.splits option.splits sum.splits)

lemma PodRun_created_run:
  assumes "newForConfig w (conf k) (builds s) = None"
    and "toK8sPod podSpec = Inr y" and "podsCreate w (ws_namespace podSpec) y = Inr pod"
  shows "PodRun toK8sPod k w podSpec s =
           (case goroutine k w podSpec pod (s\<lparr>builds := Suc (builds s)\<rparr>) of
              (acts, s') \<Rightarrow> (Inr acts, s'))"
  using assms by (simp add: PodRun_def buildClient_def)







lemma unterminated_run:
  "PodRun examplePodYaml exampleClient unterminatedWorld exampleSpec startCalls =
    (Inr [WaitPodStart None, OpenPodLogs None, IoCopy [] None, WaitPodEnd None,
          PodExitCode 1 (Some ErrPodStillRunning), WClose, ChanClose], \<lparr>builds = 5, gets = 3\<rparr>)"
proof -
  let ?pod = "\<lparr>pod_namespace = ''shop'', pod_name = ''web'', phase = PodPhaseOther [], containerStatuses = []\<rparr>"
  have 1: "waitPodStart exampleClient unterminatedWorld ?pod (1 * second) (5 * minute) \<lparr>builds = 1, gets = 0\<rparr>
             = (None, \<lparr>builds = 2, gets = 1\<rparr>)"
    by (simp add: waitPodStart_def buildClient_def PollImmediate_def pollLoop_unfold
        waitPodStart_condition_def unterminatedWorld_def quietWorld_def examplePod_def)
  have 2: "PodLogs exampleClient unterminatedWorld ''shop'' ''web'' opts \<lparr>builds = 2, gets = 1\<rparr>
             = (Inr \<lparr>ls_bytes = [], ls_error = None\<rparr>, \<lparr>builds = 3, gets = 1\<rparr>)" for opts
    by (simp add: PodLogs_def buildClient_def unterminatedWorld_def quietWorld_def)
  have 3: "waitPodEnd exampleClient unterminatedWorld ?pod (3 * second) (podRunTimeout exampleClient) \<lparr>builds = 3, gets = 1\<rparr>
             = (None, \<lparr>builds = 4, gets = 2\<rparr>)"
    by (simp add: waitPodEnd_def buildClient_def PollImmediate_def pollLoop_unfold
        waitPodEnd_condition_def unterminatedWorld_def quietWorld_def examplePod_def)
  have 4: "podExitCode exampleClient unterminatedWorld ?pod \<lparr>builds = 4, gets = 2\<rparr>
             = ((1, Some ErrPodStillRunning), \<lparr>builds = 5, gets = 3\<rparr>)"
    by (simp add: podExitCode_def buildClient_def unterminatedWorld_def quietWorld_def examplePod_def)
  have g: "goroutine exampleClient unterminatedWorld exampleSpec ?pod \<lparr>builds = 1, gets = 0\<rparr> =
     ([WaitPodStart None, OpenPodLogs None, IoCopy [] None, WaitPodEnd None,
          PodExitCode 1 (Some ErrPodStillRunning), WClose, ChanClose], \<lparr>builds = 5, gets = 3\<rparr>)"
    unfolding goroutine_cases
    by (simp add: 1 [simplified] exampleSpec_def 2 [simplified] 3 [simplified] 4 [simplified])
  have b: "newForConfig unterminatedWorld (conf exampleClient) (builds startCalls) = None"
    by (simp add: unterminatedWorld_def quietWorld_def)
  have y: "examplePodYaml exampleSpec = Inr ?pod"
    by (simp add: examplePodYaml_def exampleSpec_def)
  have c: "podsCreate unterminatedWorld (ws_namespace exampleSpec) ?pod = Inr ?pod"
    by (simp add: unterminatedWorld_def quietWorld_def)
  show ?thesis
    unfolding PodRun_created_run [where toK8sPod = examplePodYaml and podSpec = exampleSpec, OF b y c] by (simp add: startCalls_def g [simplified])
qed

lemma podExitCode_loop_none:
  "(\<forall>c \<in> set cs. terminated c = None) \<Longrightarrow> podExitCode_loop cs = (1, Some ErrPodStillRunning)"
  by (induction cs) simp_all

lemma podExitCode_loop_first:
  "(\<forall>x \<in> set pre. terminated x = None) \<Longrightarrow> terminated c = Some code \<Longrightarrow>
     podExitCode_loop (pre @ c # post) = (sint code, None)"
  by (induction pre) simp_all

lemma podExitCode_read:
  assumes "newForConfig w (conf k) (builds s) = None"
    and "podsGet w (pod_namespace pod) (pod_name pod) (gets s) = Inr p"
  shows "fst (podExitCode k w pod s) = podExitCode_loop (containerStatuses p)"
  using assms by (simp add: podExitCode_def buildClient_def)

lemma podExitCode_unterminated:
  assumes "\<forall>i q. podsGet w (pod_namespace pod) (pod_name pod) i = Inr q \<longrightarrow>
             (\<forall>c \<in> set (containerStatuses q). terminated c = None)"
  shows "snd (fst (podExitCode k w pod s)) \<noteq> None"
proof (cases "newForConfig w (conf k) (builds s)")
  case (Some e)
  then show ?thesis by (simp add: podExitCode_def buildClient_def)
next
  case None
  show ?thesis
  proof (cases "podsGet w (pod_namespace pod) (pod_name pod) (gets s)")
    case (Inl e)
    with None show ?thesis by (simp add: podExitCode_def buildClient_def)
  next
    case (Inr q)
    with assms have "\<forall>c \<in> set (containerStatuses q). terminated c = None" by blast
    then have "podExitCode_loop (containerStatuses q) = (1, Some ErrPodStillRunning)"
      by (rule podExitCode_loop_none)
    with None Inr show ?thesis by (simp add: podExitCode_def buildClient_def)
  qed
qed

lemma sessionFailed_unterminated:
  assumes "\<forall>i q. podsGet w (pod_namespace pod) (pod_name pod) i = Inr q \<longrightarrow>
             (\<forall>c \<in> set (containerStatuses q). terminated c = None)"
  shows "sessionFailed k w podSpec pod s"
  unfolding sessionFailed_def
  using podExitCode_unterminated [OF assms]
  by (simp split: prod.split option.split sum.split)







text \<open>
  Claim C3. When the reads of the pod show phases other than running, succeeded and failed
  and then the failed phase, within the ticks of the timeout, \<open>waitPodStart\<close> answers
  \<open>ErrPodRunFailed\<close>, which is not the timeout error, and the session of \<open>PodRun\<close>
  does nothing more than close its two handles: it opens no log stream, copies nothing and
  makes no end-wait.
\<close>

theorem waitPodStart_failed_before_running:
  assumes pending: "\<forall>j<i. \<exists>q. podsGet w (pod_namespace pod) (pod_name pod) (g + j) = Inr q
                    \<and> phase q \<noteq> PodFailed \<and> phase q \<noteq> PodRunning \<and> phase q \<noteq> PodSucceeded"
    and failed: "podsGet w (pod_namespace pod) (pod_name pod) (g + i) = Inr p" "phase p = PodFailed"
  shows "(\<forall>checkInterval timeout s.
            newForConfig w (conf k) (builds s) = None \<and> gets s = g
            \<and> i \<le> pollTicks w checkInterval timeout \<longrightarrow>
            fst (waitPodStart k w pod checkInterval timeout s) = Some ErrPodRunFailed)
       \<and> ErrPodRunFailed \<noteq> ErrWaitTimeout
       \<and> (\<forall>toK8sPod podSpec y s.
            toK8sPod podSpec = Inr y \<and> podsCreate w (ws_namespace podSpec) y = Inr pod
            \<and> newForConfig w (conf k) (builds s) = None
            \<and> newForConfig w (conf k) (Suc (builds s)) = None \<and> gets s = g
            \<and> i \<le> pollTicks w (1 * second) (5 * minute) \<longrightarrow>
            fst (PodRun toK8sPod k w podSpec s) =
              Inr [WaitPodStart (Some ErrPodRunFailed), WClose, ChanClose])"
proof (intro conjI allI impI)
  fix checkInterval timeout and s :: calls
  assume a: "newForConfig w (conf k) (builds s) = None \<and> gets s = g
            \<and> i \<le> pollTicks w checkInterval timeout"
  then show "fst (waitPodStart k w pod checkInterval timeout s) = Some ErrPodRunFailed"
    using waitPodStart_returns_failed [of w k s i pod p checkInterval timeout] pending failed
    by simp
next
  show "ErrPodRunFailed \<noteq> ErrWaitTimeout" by simp
next
  fix toK8sPod :: "workload_spec \<Rightarrow> error + pod" and podSpec y and s :: calls
  assume a: "toK8sPod podSpec = Inr y \<and> podsCreate w (ws_namespace podSpec) y = Inr pod
            \<and> newForConfig w (conf k) (builds s) = None
            \<and> newForConfig w (conf k) (Suc (builds s)) = None \<and> gets s = g
            \<and> i \<le> pollTicks w (1 * second) (5 * minute)"
  let ?s1 = "s\<lparr>builds := Suc (builds s)\<rparr>"
  have "fst (waitPodStart k w pod (1 * second) (5 * minute) ?s1) = Some ErrPodRunFailed"
    using waitPodStart_returns_failed [of w k ?s1 i pod p "1 * second" "5 * minute"] pending failed a
    by simp
  then have "fst (goroutine k w podSpec pod ?s1) = [WaitPodStart (Some ErrPodRunFailed), WClose, ChanClose]"
    by (rule goroutine_start_failure)
  moreover have "fst (PodRun toK8sPod k w podSpec s) = Inr (fst (goroutine k w podSpec pod ?s1))"
    using a by (intro PodRun_created [where y = y]) simp_all
  ultimately show "fst (PodRun toK8sPod k w podSpec s) =
              Inr [WaitPodStart (Some ErrPodRunFailed), WClose, ChanClose]"
    by simp
qed

theorem waitPodStart_failed_before_running_witness:
  "fst (waitPodStart exampleClient failingWorld (examplePod (PodPhaseOther []) []) (1 * second) (5 * minute)
          startCalls) = Some ErrPodRunFailed
   \<and> fst (PodRun examplePodYaml exampleClient failingWorld exampleSpec startCalls) =
       Inr [WaitPodStart (Some ErrPodRunFailed), WClose, ChanClose]"
proof -
  let ?pod = "examplePod (PodPhaseOther []) []"
  have pending: "\<forall>j<2. \<exists>q. podsGet failingWorld (pod_namespace ?pod) (pod_name ?pod) (0 + j) = Inr q
                    \<and> phase q \<noteq> PodFailed \<and> phase q \<noteq> PodRunning \<and> phase q \<noteq> PodSucceeded"
    by (simp add: failingWorld_def examplePod_def)
  have failed: "podsGet failingWorld (pod_namespace ?pod) (pod_name ?pod) (0 + 2) = Inr (examplePod PodFailed [])"
    "phase (examplePod PodFailed []) = PodFailed"
    by (simp_all add: failingWorld_def examplePod_def)
  note t = waitPodStart_failed_before_running [OF pending failed, of exampleClient]
  have ticks: "2 \<le> pollTicks failingWorld (1 * second) (5 * minute)"
    by (simp add: failingWorld_def quietWorld_def second_def minute_def)
  have b: "newForConfig failingWorld (conf exampleClient) n = None" for n
    by (simp add: failingWorld_def quietWorld_def)
  have 1: "fst (waitPodStart exampleClient failingWorld ?pod (1 * second) (5 * minute) startCalls)
             = Some ErrPodRunFailed"
    using t ticks b by (simp add: startCalls_def)
  have y: "examplePodYaml exampleSpec = Inr ?pod"
    by (simp add: examplePodYaml_def exampleSpec_def examplePod_def)
  have c: "podsCreate failingWorld (ws_namespace exampleSpec) ?pod = Inr ?pod"
    by (simp add: failingWorld_def quietWorld_def)
  from t have "\<forall>toK8sPod podSpec y s.
            toK8sPod podSpec = Inr y \<and> podsCreate failingWorld (ws_namespace podSpec) y = Inr ?pod
            \<and> newForConfig failingWorld (conf exampleClient) (builds s) = None
            \<and> newForConfig failingWorld (conf exampleClient) (Suc (builds s)) = None \<and> gets s = 0
            \<and> 2 \<le> pollTicks failingWorld (1 * second) (5 * minute) \<longrightarrow>
            fst (PodRun toK8sPod exampleClient failingWorld podSpec s) =
              Inr [WaitPodStart (Some ErrPodRunFailed), WClose, ChanClose]"
    by blast
  then have 2: "fst (PodRun examplePodYaml exampleClient failingWorld exampleSpec startCalls) =
              Inr [WaitPodStart (Some ErrPodRunFailed), WClose, ChanClose]"
    using y c b ticks by (simp add: startCalls_def)
  from 1 2 show ?thesis by simp
qed

text \<open>
  Claim C6. \<open>waitPodEnd\<close> answers \<open>nil\<close> at the first read that shows the succeeded
  or the failed phase (after exactly that many reads), where the earlier reads showed
  neither; on a read that shows the failed phase its condition is true with no error, while
  the condition of \<open>waitPodStart\<close> gives \<open>ErrPodRunFailed\<close>, and so does
  \<open>waitPodStart\<close> on the same reads when none showed the running phase before.
\<close>

theorem waitPodEnd_succeeded_or_failed:
  assumes build: "newForConfig w (conf k) (builds s) = None"
    and running: "\<forall>j<i. \<exists>q. podsGet w (pod_namespace pod) (pod_name pod) (gets s + j) = Inr q
                    \<and> phase q \<noteq> PodSucceeded \<and> phase q \<noteq> PodFailed"
    and ended: "podsGet w (pod_namespace pod) (pod_name pod) (gets s + i) = Inr p"
               "phase p = PodSucceeded \<or> phase p = PodFailed"
    and intime: "i \<le> pollTicks w checkInterval timeout"
  shows "waitPodEnd k w pod checkInterval timeout s =
           (None, s\<lparr>builds := Suc (builds s), gets := Suc (gets s + i)\<rparr>)
       \<and> (phase p = PodFailed \<longrightarrow>
            fst (waitPodEnd_condition w pod (s\<lparr>gets := gets s + i\<rparr>)) = (True, None)
            \<and> fst (waitPodStart_condition w pod (s\<lparr>gets := gets s + i\<rparr>)) = (True, Some ErrPodRunFailed))
       \<and> (phase p = PodFailed
            \<and> (\<forall>j<i. \<forall>q. podsGet w (pod_namespace pod) (pod_name pod) (gets s + j) = Inr q
                   \<longrightarrow> phase q \<noteq> PodRunning) \<longrightarrow>
            fst (waitPodStart k w pod checkInterval timeout s) = Some ErrPodRunFailed)"
proof (intro conjI impI)
  show "waitPodEnd k w pod checkInterval timeout s =
           (None, s\<lparr>builds := Suc (builds s), gets := Suc (gets s + i)\<rparr>)"
    by (rule waitPodEnd_returns_ended [OF build running ended intime])
next
  assume "phase p = PodFailed"
  then show "fst (waitPodEnd_condition w pod (s\<lparr>gets := gets s + i\<rparr>)) = (True, None)"
    using ended(1) by (simp add: waitPodEnd_condition_def)
next
  assume "phase p = PodFailed"
  then show "fst (waitPodStart_condition w pod (s\<lparr>gets := gets s + i\<rparr>)) = (True, Some ErrPodRunFailed)"
    using ended(1) by (simp add: waitPodStart_condition_def)
next
  assume a: "phase p = PodFailed
            \<and> (\<forall>j<i. \<forall>q. podsGet w (pod_namespace pod) (pod_name pod) (gets s + j) = Inr q
                   \<longrightarrow> phase q \<noteq> PodRunning)"
  with running have "\<forall>j<i. \<exists>q. podsGet w (pod_namespace pod) (pod_name pod) (gets s + j) = Inr q
                    \<and> phase q \<noteq> PodFailed \<and> phase q \<noteq> PodRunning \<and> phase q \<noteq> PodSucceeded"
    by fastforce
  from waitPodStart_returns_failed [OF build this ended(1) _ intime] a
  show "fst (waitPodStart k w pod checkInterval timeout s) = Some ErrPodRunFailed"
    by simp
qed

theorem waitPodEnd_succeeded_or_failed_witness:
  "fst (waitPodEnd exampleClient failingWorld (examplePod (PodPhaseOther []) []) (3 * second)
          (podRunTimeout exampleClient) startCalls) = None
   \<and> fst (waitPodStart exampleClient failingWorld (examplePod (PodPhaseOther []) []) (3 * second)
          (podRunTimeout exampleClient) startCalls) = Some ErrPodRunFailed"
proof -
  let ?pod = "examplePod (PodPhaseOther []) []"
  have b: "newForConfig failingWorld (conf exampleClient) (builds startCalls) = None"
    by (simp add: failingWorld_def quietWorld_def)
  have running: "\<forall>j<2. \<exists>q. podsGet failingWorld (pod_namespace ?pod) (pod_name ?pod) (gets startCalls + j) = Inr q
                    \<and> phase q \<noteq> PodSucceeded \<and> phase q \<noteq> PodFailed"
    by (simp add: failingWorld_def examplePod_def startCalls_def)
  have ended: "podsGet failingWorld (pod_namespace ?pod) (pod_name ?pod) (gets startCalls + 2)
                 = Inr (examplePod PodFailed [])"
    "phase (examplePod PodFailed []) = PodSucceeded \<or> phase (examplePod PodFailed []) = PodFailed"
    by (simp_all add: failingWorld_def examplePod_def startCalls_def)
  have ticks: "2 \<le> pollTicks failingWorld (3 * second) (podRunTimeout exampleClient)"
    by (simp add: failingWorld_def quietWorld_def second_def exampleClient_def)
  have notrunning: "phase (examplePod PodFailed []) = PodFailed
            \<and> (\<forall>j<2. \<forall>q. podsGet failingWorld (pod_namespace ?pod) (pod_name ?pod) (gets startCalls + j) = Inr q
                   \<longrightarrow> phase q \<noteq> PodRunning)"
    by (auto simp add: failingWorld_def examplePod_def startCalls_def)
  from waitPodEnd_succeeded_or_failed [OF b running ended ticks] notrunning
  show ?thesis by simp
qed

text \<open>
  Claim C7. When the pod read has no container status with a terminated state,
  \<open>podExitCode\<close> answers \<open>ErrPodStillRunning\<close> (beside the 1 that the caller drops);
  when it has one, the answer is the exit code of the first such status, with no error; and
  in a session of a pod that never shows a terminated state nothing is sent on the channel.
\<close>

theorem podExitCode_no_guess:
  assumes build: "newForConfig w (conf k) (builds s) = None"
    and read: "podsGet w (pod_namespace pod) (pod_name pod) (gets s) = Inr p"
  shows "((\<forall>c \<in> set (containerStatuses p). terminated c = None) \<longrightarrow>
            fst (podExitCode k w pod s) = (1, Some ErrPodStillRunning))
       \<and> (\<forall>pre c code post.
            containerStatuses p = pre @ c # post \<and> (\<forall>x \<in> set pre. terminated x = None)
            \<and> terminated c = Some code \<longrightarrow>
            fst (podExitCode k w pod s) = (sint code, None))
       \<and> ((\<forall>i q. podsGet w (pod_namespace pod) (pod_name pod) i = Inr q \<longrightarrow>
               (\<forall>c \<in> set (containerStatuses q). terminated c = None)) \<longrightarrow>
            (\<forall>podSpec s0. filter isChanSend (fst (goroutine k w podSpec pod s0)) = []))"
proof (intro conjI allI impI)
  assume "\<forall>c \<in> set (containerStatuses p). terminated c = None"
  then show "fst (podExitCode k w pod s) = (1, Some ErrPodStillRunning)"
    by (simp add: podExitCode_read [OF build read] podExitCode_loop_none)
next
  fix pre c code post
  assume "containerStatuses p = pre @ c # post \<and> (\<forall>x \<in> set pre. terminated x = None)
            \<and> terminated c = Some code"
  then show "fst (podExitCode k w pod s) = (sint code, None)"
    by (simp add: podExitCode_read [OF build read] podExitCode_loop_first)
next
  fix podSpec and s0 :: calls
  assume a: "\<forall>i q. podsGet w (pod_namespace pod) (pod_name pod) i = Inr q \<longrightarrow>
               (\<forall>c \<in> set (containerStatuses q). terminated c = None)"
  obtain acts s' where g: "goroutine k w podSpec pod s0 = (acts, s')"
    by (cases "goroutine k w podSpec pod s0")
  from goroutine_sends(3) [OF g sessionFailed_unterminated [OF a]]
  show "filter isChanSend (fst (goroutine k w podSpec pod s0)) = []"
    by (simp add: g)
qed

theorem podExitCode_no_guess_witness:
  "fst (podExitCode exampleClient unterminatedWorld (examplePod (PodPhaseOther []) []) startCalls) =
     (1, Some ErrPodStillRunning)
   \<and> filter isChanSend (fst (goroutine exampleClient unterminatedWorld exampleSpec
         (examplePod (PodPhaseOther []) []) startCalls)) = []
   \<and> fst (podExitCode exampleClient helloWorld (examplePod (PodPhaseOther []) [])
           \<lparr>builds = 4, gets = 3\<rparr>) = (0, None)"
proof -
  let ?pod = "examplePod (PodPhaseOther []) []"
  let ?u = "examplePod PodSucceeded [\<lparr>cs_name = ''web'', terminated = None\<rparr>]"
  let ?h = "examplePod PodSucceeded [\<lparr>cs_name = ''web'', terminated = Some 0\<rparr>]"
  have b: "newForConfig unterminatedWorld (conf exampleClient) (builds startCalls) = None"
    by (simp add: unterminatedWorld_def quietWorld_def)
  have r: "podsGet unterminatedWorld (pod_namespace ?pod) (pod_name ?pod) (gets startCalls) = Inr ?u"
    by (simp add: unterminatedWorld_def)
  have all: "\<forall>i q. podsGet unterminatedWorld (pod_namespace ?pod) (pod_name ?pod) i = Inr q \<longrightarrow>
               (\<forall>c \<in> set (containerStatuses q). terminated c = None)"
    by (auto simp add: unterminatedWorld_def examplePod_def)
  have none: "\<forall>c \<in> set (containerStatuses ?u). terminated c = None"
    by (simp add: examplePod_def)
  note t = podExitCode_no_guess [OF b r]
  from t none have 1: "fst (podExitCode exampleClient unterminatedWorld ?pod startCalls) =
     (1, Some ErrPodStillRunning)" by blast
  from t all have 2: "filter isChanSend (fst (goroutine exampleClient unterminatedWorld exampleSpec
         ?pod startCalls)) = []" by blast
  have b': "newForConfig helloWorld (conf exampleClient) (builds \<lparr>builds = 4, gets = 3\<rparr>) = None"
    by (simp add: helloWorld_def quietWorld_def)
  have r': "podsGet helloWorld (pod_namespace ?pod) (pod_name ?pod) (gets \<lparr>builds = 4, gets = 3\<rparr>) = Inr ?h"
    by (simp add: helloWorld_def)
  have first: "containerStatuses ?h = [] @ \<lparr>cs_name = ''web'', terminated = Some 0\<rparr> # []
       \<and> (\<forall>x \<in> set []. terminated x = None)
       \<and> terminated \<lparr>cs_name = ''web'', terminated = Some (0 :: 32 word)\<rparr> = Some 0"
    by (simp add: examplePod_def)
  from podExitCode_no_guess [OF b' r'] first
  have "fst (podExitCode exampleClient helloWorld ?pod \<lparr>builds = 4, gets = 3\<rparr>) = (sint (0 :: 32 word), None)"
    by blast
  then have 3: "fst (podExitCode exampleClient helloWorld ?pod \<lparr>builds = 4, gets = 3\<rparr>) = (0, None)"
    by simp
  from 1 2 3 show ?thesis by simp
qed


subsection \<open>Patches\<close>

lemma sublist_behind: "sublist x ys \<Longrightarrow> sublist x (ps @ ys)"
proof -
  assume "sublist x ys"
  then obtain a b where "ys = a @ x @ b" by (auto simp: sublist_def)
  then have "ps @ ys = (ps @ a) @ x @ b" by simp
  then show ?thesis unfolding sublist_def by blast
qed

lemma sublist_before: "sublist x ys \<Longrightarrow> sublist x (ys @ ss)"
proof -
  assume "sublist x ys"
  then obtain a b where "ys = a @ x @ b" by (auto simp: sublist_def)
  then have "ys @ ss = a @ x @ (b @ ss)" by simp
  then show ?thesis unfolding sublist_def by blast
qed

lemma sublist_joinComma: "x \<in> set xs \<Longrightarrow> sublist x (joinComma xs)"
proof (induction xs rule: joinComma.induct)
  case 1
  then show ?case by simp
next
  case (2 y)
  then show ?case by simp
next
  case (3 y z zs)
  show ?case
  proof (cases "x = y")
    case True
    then show ?thesis by simp
  next
    case False
    with 3 have "sublist x (joinComma (z # zs))" by simp
    then have "sublist x ((y @ '','') @ joinComma (z # zs))" by (rule sublist_behind)
    then show ?thesis by simp
  qed
qed

lemma marshal_convertAppDeleteEnvVar:
  "marshal (jsonQuote w) (convertAppDeleteEnvVar evNames) =
     ''['' @ joinComma (map (deleteDirective w) evNames) @ '']''"
  by (simp add: convertAppDeleteEnvVar_def deleteDirective_def [abs_def] comp_def)

lemma DeleteDeployEnvVars_request:
  assumes "newForConfig w (conf k) (builds s) = None"
  shows "snd (fst (DeleteDeployEnvVars k w namespace name evNames s)) =
           [Patch namespace name StrategicMergePatchType
              (patchDeployEnvVarsTmpl (timeNow w) name
                 (''['' @ joinComma (map (deleteDirective w) evNames) @ '']''))]"
  using assms
  by (simp add: DeleteDeployEnvVars_def patchDeployEnvVars_def prepareEnvVarsPath_def json_Marshal_def
      buildClient_def marshal_convertAppDeleteEnvVar)

lemma DeleteCronJobEnvVars_request:
  assumes "newForConfig w (conf k) (builds s) = None"
  shows "snd (fst (DeleteCronJobEnvVars k w namespace name evNames s)) =
           [Patch namespace name StrategicMergePatchType
              (patchCronJobEnvVarsTmpl (timeNow w) name
                 (''['' @ joinComma (map (deleteDirective w) evNames) @ '']''))]"
  using assms
  by (simp add: DeleteCronJobEnvVars_def patchCronJobEnvVars_def prepareEnvVarsPath_def json_Marshal_def
      buildClient_def marshal_convertAppDeleteEnvVar)

lemma sublist_patchDeployEnvVarsTmpl: "sublist x env \<Longrightarrow> sublist x (patchDeployEnvVarsTmpl date name env)"
  unfolding patchDeployEnvVarsTmpl_def
  by (intro sublist_behind sublist_before)

lemma sublist_patchCronJobEnvVarsTmpl: "sublist x env \<Longrightarrow> sublist x (patchCronJobEnvVarsTmpl date name env)"
  unfolding patchCronJobEnvVarsTmpl_def
  by (intro sublist_behind sublist_before)

lemma sublist_env_array:
  "evName \<in> set evNames \<Longrightarrow>
     sublist (deleteDirective w evName) (''['' @ joinComma (map (deleteDirective w) evNames) @ '']'')"
  by (intro sublist_behind sublist_before sublist_joinComma) simp

text \<open>
  Claim C9. For every list of names, \<open>DeleteDeployEnvVars\<close> and
  \<open>DeleteCronJobEnvVars\<close> send one strategic merge patch whose \<open>env\<close> array is made
  of one entry per name, in order, and nothing else; the entry of a name holds the name and
  the marker \<open>$patch\<close> with the value \<open>delete\<close>, so that it stands in the body for
  every name of the list.
\<close>

theorem DeleteEnvVars_deletion_marker:
  assumes "newForConfig w (conf k) (builds s) = None"
  shows \<open>(\<exists>data. snd (fst (DeleteDeployEnvVars k w namespace name evNames s)) =
               [Patch namespace name StrategicMergePatchType data]
             \<and> (\<exists>pre post. data = pre @ ''"env":['' @ joinComma (map (deleteDirective w) evNames) @ '']'' @ post)
             \<and> (\<forall>evName \<in> set evNames. sublist (deleteDirective w evName) data))
       \<and> (\<exists>data. snd (fst (DeleteCronJobEnvVars k w namespace name evNames s)) =
               [Patch namespace name StrategicMergePatchType data]
             \<and> (\<exists>pre post. data = pre @ ''"env":['' @ joinComma (map (deleteDirective w) evNames) @ '']'' @ post)
             \<and> (\<forall>evName \<in> set evNames. sublist (deleteDirective w evName) data))
       \<and> (jsonQuote w ''delete'' = ''"delete"'' \<longrightarrow>
            (\<forall>evName. deleteDirective w evName =
               ''{"name":'' @ jsonQuote w evName @ '',"$patch":"delete"}''))\<close>
proof (intro conjI allI impI)
  let ?env = "''['' @ joinComma (map (deleteDirective w) evNames) @ '']''"
  show \<open>\<exists>data. snd (fst (DeleteDeployEnvVars k w namespace name evNames s)) =
               [Patch namespace name StrategicMergePatchType data]
             \<and> (\<exists>pre post. data = pre @ ''"env":['' @ joinComma (map (deleteDirective w) evNames) @ '']'' @ post)
             \<and> (\<forall>evName \<in> set evNames. sublist (deleteDirective w evName) data)\<close>
  proof (intro exI conjI ballI)
    show "snd (fst (DeleteDeployEnvVars k w namespace name evNames s)) =
               [Patch namespace name StrategicMergePatchType (patchDeployEnvVarsTmpl (timeNow w) name ?env)]"
      by (rule DeleteDeployEnvVars_request [OF assms])
    show \<open>patchDeployEnvVarsTmpl (timeNow w) name ?env =
        (''{"metadata": {"annotations": {"kubernetes.io/change-cause": "update env vars"}}, "spec":{"template":{"metadata": {"annotations": {"date": "''
           @ timeNow w @ ''"}}, "spec":{"containers":[{"name": "'' @ name @ ''", '')
        @ ''"env":['' @ joinComma (map (deleteDirective w) evNames) @ '']'' @ ''}]}}}}''\<close>
      by (simp add: patchDeployEnvVarsTmpl_def)
    fix evName assume "evName \<in> set evNames"
    then show "sublist (deleteDirective w evName) (patchDeployEnvVarsTmpl (timeNow w) name ?env)"
      by (intro sublist_patchDeployEnvVarsTmpl sublist_env_array)
  qed
  show \<open>\<exists>data. snd (fst (DeleteCronJobEnvVars k w namespace name evNames s)) =
               [Patch namespace name StrategicMergePatchType data]
             \<and> (\<exists>pre post. data = pre @ ''"env":['' @ joinComma (map (deleteDirective w) evNames) @ '']'' @ post)
             \<and> (\<forall>evName \<in> set evNames. sublist (deleteDirective w evName) data)\<close>
  proof (intro exI conjI ballI)
    show "snd (fst (DeleteCronJobEnvVars k w namespace name evNames s)) =
               [Patch namespace name StrategicMergePatchType (patchCronJobEnvVarsTmpl (timeNow w) name ?env)]"
      by (rule DeleteCronJobEnvVars_request [OF assms])
    show \<open>patchCronJobEnvVarsTmpl (timeNow w) name ?env =
        (''{"metadata": {"annotations": {"kubernetes.io/change-cause": "update env vars"}}, "spec":{"template":{"metadata":{"annotations":{"date": "''
           @ timeNow w @ ''"}}}, "jobTemplate":{"spec": {"template": {"spec": {"containers":[{"name": "'' @ name @ ''", '')
        @ ''"env":['' @ joinComma (map (deleteDirective w) evNames) @ '']'' @ ''}]}}}}}}''\<close>
      by (simp add: patchCronJobEnvVarsTmpl_def)
    fix evName assume "evName \<in> set evNames"
    then show "sublist (deleteDirective w evName) (patchCronJobEnvVarsTmpl (timeNow w) name ?env)"
      by (intro sublist_patchCronJobEnvVarsTmpl sublist_env_array)
  qed
  fix evName
  assume \<open>jsonQuote w ''delete'' = ''"delete"''\<close>
  then show \<open>deleteDirective w evName = ''{"name":'' @ jsonQuote w evName @ '',"$patch":"delete"}''\<close>
    by (simp add: deleteDirective_def)
qed


theorem DeleteEnvVars_deletion_marker_witness:
  \<open>snd (fst (DeleteDeployEnvVars exampleClient quietWorld ''shop'' ''web'' [''DEBUG'', ''TOKEN''] startCalls)) =
     [Patch ''shop'' ''web'' StrategicMergePatchType
        ''{"metadata": {"annotations": {"kubernetes.io/change-cause": "update env vars"}}, "spec":{"template":{"metadata": {"annotations": {"date": "2017-11-02 10:00:00 +0000 UTC"}}, "spec":{"containers":[{"name": "web", "env":[{"name":"DEBUG","$patch":"delete"},{"name":"TOKEN","$patch":"delete"}]}]}}}}'']
   \<and> sublist ''{"name":"TOKEN","$patch":"delete"}''
        ''{"metadata": {"annotations": {"kubernetes.io/change-cause": "update env vars"}}, "spec":{"template":{"metadata": {"annotations": {"date": "2017-11-02 10:00:00 +0000 UTC"}}, "spec":{"containers":[{"name": "web", "env":[{"name":"DEBUG","$patch":"delete"},{"name":"TOKEN","$patch":"delete"}]}]}}}}''\<close>
proof -
  have b: "newForConfig quietWorld (conf exampleClient) (builds startCalls) = None"
    by (simp add: quietWorld_def)
  note t = DeleteEnvVars_deletion_marker [OF b, of "''shop''" "''web''" "[''DEBUG'', ''TOKEN'']"]
  have req: \<open>snd (fst (DeleteDeployEnvVars exampleClient quietWorld ''shop'' ''web'' [''DEBUG'', ''TOKEN''] startCalls)) =
     [Patch ''shop'' ''web'' StrategicMergePatchType
        ''{"metadata": {"annotations": {"kubernetes.io/change-cause": "update env vars"}}, "spec":{"template":{"metadata": {"annotations": {"date": "2017-11-02 10:00:00 +0000 UTC"}}, "spec":{"containers":[{"name": "web", "env":[{"name":"DEBUG","$patch":"delete"},{"name":"TOKEN","$patch":"delete"}]}]}}}}'']\<close>
    unfolding DeleteDeployEnvVars_request [OF b]
    by (simp add: patchDeployEnvVarsTmpl_def deleteDirective_def quietWorld_def plainQuote_def)
  have q: \<open>jsonQuote quietWorld ''delete'' = ''"delete"''\<close>
    by (simp add: quietWorld_def plainQuote_def)
  with t have \<open>deleteDirective quietWorld ''TOKEN'' = ''{"name":'' @ jsonQuote quietWorld ''TOKEN'' @ '',"$patch":"delete"}''\<close>
    by blast
  then have d: \<open>deleteDirective quietWorld ''TOKEN'' = ''{"name":"TOKEN","$patch":"delete"}''\<close>
    by (simp add: quietWorld_def plainQuote_def)
  from t obtain data where
    r: "snd (fst (DeleteDeployEnvVars exampleClient quietWorld ''shop'' ''web'' [''DEBUG'', ''TOKEN''] startCalls)) =
               [Patch ''shop'' ''web'' StrategicMergePatchType data]"
    and sub: "\<forall>evName \<in> set [''DEBUG'', ''TOKEN'']. sublist (deleteDirective quietWorld evName) data"
    by blast
  from sub have "sublist (deleteDirective quietWorld ''TOKEN'') data" by simp
  with r req d show ?thesis by simp
qed

lemma merge_example:
  \<open>fst (SetServiceAnnotations exampleClient mergingWorld ''shop'' ''web''
          (Some [(''owner'', ''ana'')]) [(''team'', ''core'')] startCalls) =
     (None, [(''owner'', ''ana''), (''team'', ''core'')])\<close>
proof -
  have d: \<open>prepareServiceAnnotations mergingWorld patchServiceAnnotationsTmpl (Some [(''owner'', ''ana'')])
     = Inr ''{"metadata":{"annotations": {"owner":"ana"}}}''\<close>
    by (simp add: prepareServiceAnnotations_def json_Marshal_def annotationsValue_def mergingWorld_def
        quietWorld_def patchServiceAnnotationsTmpl_def plainQuote_def)
  have r: \<open>readAnnotationsPatch ''{"metadata":{"annotations": {"owner":"ana"}}}''
      = Some (Some [(''owner'', ''ana'')])\<close>
    by (simp add: readAnnotationsPatch_def)
  have m: \<open>servicesPatch mergingWorld ''shop'' ''web'' StrategicMergePatchType
             ''{"metadata":{"annotations": {"owner":"ana"}}}'' [(''team'', ''core'')]
           = Inr [(''owner'', ''ana''), (''team'', ''core'')]\<close>
    by (simp add: mergingWorld_def strategicMergeAnnotations_def r)
  have b: "newForConfig mergingWorld (conf exampleClient) (builds startCalls) = None"
    by (simp add: mergingWorld_def quietWorld_def)
  show ?thesis
    by (simp add: SetServiceAnnotations_def patchServiceAnnotations_def d buildClient_def b m Wrap_def)
qed


text \<open>
  Claim C8, as the code has it. \<open>SetServiceAnnotations\<close> is \<open>patchServiceAnnotations\<close>,
  which sends one strategic merge patch whose body sets \<open>metadata.annotations\<close> to the
  JSON object of the entries the caller supplied, all of them and no other (\<open>null\<close> for a
  \<open>nil\<close> map); the annotations the service has afterwards are the answer of the control
  plane to that merge patch.
\<close>

theorem SetServiceAnnotations_sends_whole_map:
  assumes "newForConfig w (conf k) (builds s) = None"
  shows \<open>fst (SetServiceAnnotations k w namespace svcName annotations stored s) =
           (case servicesPatch w namespace svcName StrategicMergePatchType
                   (''{"metadata":{"annotations": '' @ marshal (jsonQuote w) (annotationsValue annotations) @ ''}}'')
                   stored of
              Inl err \<Rightarrow> (Some (Wrapped err ''patch namespace failed''), stored)
            | Inr stored' \<Rightarrow> (None, stored'))
       \<and> patchServiceAnnotations k w namespace svcName annotations stored s =
           SetServiceAnnotations k w namespace svcName annotations stored s
       \<and> (\<forall>kvs. annotations = Some kvs \<longrightarrow>
             marshal (jsonQuote w) (annotationsValue annotations) =
               ''{'' @ joinComma (map (\<lambda>kv. jsonQuote w (fst kv) @ '':'' @ jsonQuote w (snd kv))
                                       (sort_key fst kvs)) @ ''}'')
       \<and> (annotations = None \<longrightarrow> marshal (jsonQuote w) (annotationsValue annotations) = ''null'')\<close>
  using assms
  by (simp add: SetServiceAnnotations_def patchServiceAnnotations_def prepareServiceAnnotations_def
      json_Marshal_def patchServiceAnnotationsTmpl_def buildClient_def Wrap_def annotationsValue_def
      split: sum.split)

theorem SetServiceAnnotations_sends_whole_map_witness:
  \<open>fst (SetServiceAnnotations exampleClient mergingWorld ''shop'' ''web''
          (Some [(''owner'', ''ana'')]) [(''team'', ''core'')] startCalls) =
     (case servicesPatch mergingWorld ''shop'' ''web'' StrategicMergePatchType
             ''{"metadata":{"annotations": {"owner":"ana"}}}'' [(''team'', ''core'')] of
        Inl err \<Rightarrow> (Some (Wrapped err ''patch namespace failed''), [(''team'', ''core'')])
      | Inr stored' \<Rightarrow> (None, stored'))\<close>
proof -
  have b: "newForConfig mergingWorld (conf exampleClient) (builds startCalls) = None"
    by (simp add: mergingWorld_def quietWorld_def)
  have m: \<open>''{"metadata":{"annotations": '' @ marshal (jsonQuote mergingWorld) (annotationsValue (Some [(''owner'', ''ana'')])) @ ''}}''
      = ''{"metadata":{"annotations": {"owner":"ana"}}}''\<close>
    by (simp add: annotationsValue_def mergingWorld_def quietWorld_def plainQuote_def)
  from SetServiceAnnotations_sends_whole_map [OF b, of "''shop''" "''web''" "Some [(''owner'', ''ana'')]" "[(''team'', ''core'')]"]
  show ?thesis unfolding m by blast
qed

text \<open>
  Claim C8 as the spec states it (the annotations afterwards are exactly the map supplied)
  fails on a control plane that merges key by key: the service that had \<open>team\<close> and is
  patched with \<open>owner\<close> has both.
\<close>

theorem SetServiceAnnotations_replaces_counterexample:
  \<open>fst (SetServiceAnnotations exampleClient mergingWorld ''shop'' ''web''
          (Some [(''owner'', ''ana'')]) [(''team'', ''core'')] startCalls) =
     (None, [(''owner'', ''ana''), (''team'', ''core'')])
   \<and> map_of [(''owner'', ''ana''), (''team'', ''core'')] ''team'' = Some ''core''
   \<and> map_of [(''owner'', ''ana'')] ''team'' = None
   \<and> map_of (snd (fst (SetServiceAnnotations exampleClient mergingWorld ''shop'' ''web''
          (Some [(''owner'', ''ana'')]) [(''team'', ''core'')] startCalls))) \<noteq> map_of [(''owner'', ''ana'')]\<close>
proof -
  have "map_of [(''owner'', ''ana''), (''team'', ''core'')] ''team'' \<noteq> map_of [(''owner'', ''ana'')] ''team''"
    by simp
  then have "map_of [(''owner'', ''ana''), (''team'', ''core'')] \<noteq> map_of [(''owner'', ''ana'')]"
    by metis
  then show ?thesis by (simp add: merge_example)
qed

end
